theory Spec2Isabelle
  imports Complex_Main "HOL-Library.Char_ord" "HOL-Library.List_Lexorder"
begin

section \<open>Package index (utils/package-manager.ts)\<close>

text \<open>
  \<^verbatim>\<open>PackageInfo\<close> as the interface declares it. The two numeric fields are file
  sizes and file counts: doubles whose value is a natural number. The
  \<^verbatim>\<open>manifest: any\<close> field is kept abstract (type \<open>'m\<close>). Field names shared
  with other interfaces carry a prefix.
\<close>

record 'm PackageInfo =
  pkg_platform :: string
  pkg_version :: string
  pkg_timestamp :: string
  bundleSize :: nat
  assetCount :: nat
  pkg_zipPath :: string
  pkg_manifest :: 'm

text \<open>One entry of the \<^verbatim>\<open>packages\<close> array of the index document.\<close>

record 'c PackageEntry =
  e_platform :: string
  e_version :: string
  e_timestamp :: string
  e_filename :: string
  e_size :: string
  e_bundleSize :: nat
  e_assetCount :: nat
  e_checksum :: 'c

text \<open>
  The sum of two such doubles is the double nearest to the exact sum (ties go
  to the even significand), or \<^verbatim>\<open>Infinity\<close> past the largest double. A double
  has 53 significant bits, so a natural number below \<open>2^53\<close> is its own
  rounding.
\<close>

datatype number = Finite nat | Infinity

fun bit_length :: "nat \<Rightarrow> nat" where
  "bit_length n = (if n = 0 then 0 else Suc (bit_length (n div 2)))"

declare bit_length.simps [simp del]

definition round_double :: "nat \<Rightarrow> number" where
  "round_double n =
     (if n < 2 ^ 53 then Finite n
      else let e = bit_length n - 53;
               q = n div 2 ^ e;
               r = n mod 2 ^ e;
               half = 2 ^ (e - 1);
               m = (if r > half \<or> (r = half \<and> odd q) then q + 1 else q) * 2 ^ e
           in if m \<ge> 2 ^ 1024 then Infinity else Finite m)"

fun add_number :: "number \<Rightarrow> nat \<Rightarrow> number" where
  "add_number (Finite a) b = round_double (a + b)"
| "add_number Infinity b = Infinity"

record PackageSummary =
  s_platforms :: "string list"
  totalSize :: number
  totalAssets :: number

record 'c PackageManifest =
  generated :: string
  packages :: "'c PackageEntry list"
  totalPackages :: nat
  summary :: PackageSummary

text \<open>
  \<^verbatim>\<open>packages.reduce((sum, p) => sum + f(p), 0)\<close>: a left fold from \<open>0\<close>, each
  step an addition of doubles.
\<close>

definition reduce_sum :: "('a \<Rightarrow> nat) \<Rightarrow> 'a list \<Rightarrow> number" where
  "reduce_sum f ps = foldl (\<lambda>sum p. add_number sum (f p)) (Finite 0) ps"

text \<open>
  \<^verbatim>\<open>generatePackageManifest(packages, outputDir)\<close>. The function builds the
  document and hands it to \<^verbatim>\<open>fs.writeJSON(manifestPath, packageManifest)\<close>; the
  model returns that write request (path and document). Library calls are
  parameters: \<open>join\<close> is \<^verbatim>\<open>path.join\<close>, \<open>basename\<close> is \<^verbatim>\<open>path.basename\<close>,
  \<open>mb\<close> renders \<^verbatim>\<open>(n / 1024 / 1024).toFixed(2) + " MB"\<close>, \<open>checksum\<close> is
  \<^verbatim>\<open>pkg.manifest?.bundleHash || "unknown"\<close> and \<open>now\<close> is
  \<^verbatim>\<open>new Date().toISOString()\<close>.
\<close>

definition generatePackageManifest ::
  "(string \<Rightarrow> string \<Rightarrow> string) \<Rightarrow> (string \<Rightarrow> string) \<Rightarrow> (nat \<Rightarrow> string) \<Rightarrow> ('m \<Rightarrow> 'c) \<Rightarrow> string
   \<Rightarrow> 'm PackageInfo list \<Rightarrow> string \<Rightarrow> string \<times> 'c PackageManifest" where
  "generatePackageManifest join basename mb checksum now pkgs outputDir =
     (let manifestPath = join outputDir ''packages-manifest.json'';
          packageManifest = \<lparr>
            generated = now,
            packages = map (\<lambda>pkg. \<lparr>
                e_platform = pkg_platform pkg,
                e_version = pkg_version pkg,
                e_timestamp = pkg_timestamp pkg,
                e_filename = basename (pkg_zipPath pkg),
                e_size = mb (bundleSize pkg),
                e_bundleSize = bundleSize pkg,
                e_assetCount = assetCount pkg,
                e_checksum = checksum (pkg_manifest pkg) \<rparr>) pkgs,
            totalPackages = length pkgs,
            summary = \<lparr>
              s_platforms = map pkg_platform pkgs,
              totalSize = reduce_sum bundleSize pkgs,
              totalAssets = reduce_sum assetCount pkgs \<rparr> \<rparr>
      in (manifestPath, packageManifest))"

section \<open>Key generation (DigitalSignature in utils/config-loader.ts)\<close>

text \<open>
  \<^verbatim>\<open>SignatureConfig\<close>; an optional field is an \<open>option\<close>, \<open>None\<close> standing for
  an absent property.
\<close>

record SignatureConfig =
  algorithm :: string
  privateKeyPath :: "string option"
  publicKeyPath :: "string option"
  keySize :: "int option"

text \<open>
  The constructor: the parameter defaults to
  \<^verbatim>\<open>{ algorithm: "RSA-SHA256", keySize: 2048 }\<close>, and the stored configuration is
  \<^verbatim>\<open>{ keySize: 2048, ...config }\<close>.
\<close>

definition DigitalSignature :: "SignatureConfig option \<Rightarrow> SignatureConfig" where
  "DigitalSignature arg =
     (let config = (case arg of
                      None \<Rightarrow> \<lparr>algorithm = ''RSA-SHA256'', privateKeyPath = None,
                                publicKeyPath = None, keySize = Some 2048\<rparr>
                    | Some c \<Rightarrow> c)
      in config\<lparr>keySize := (case keySize config of None \<Rightarrow> Some 2048 | Some k \<Rightarrow> Some k)\<rparr>)"

record KeyPair =
  privateKey :: string
  publicKey :: string

text \<open>
  \<^verbatim>\<open>generateAndSaveKeyPair(outputDir, keyName)\<close> over a file store \<open>'fs\<close>. The
  external calls are parameters, each returning \<open>Inl message\<close> when it throws:
  \<open>ensureDir\<close> and \<open>writeFile\<close> (fs-extra), \<open>genRSA\<close> (\<^verbatim>\<open>generateRSAKeyPair\<close>,
  which receives the modulus length, \<open>None\<close> selecting its default) and \<open>genEC\<close>
  (\<^verbatim>\<open>generateECDSAKeyPair\<close>, which receives the curve name).
\<close>

definition generateAndSaveKeyPair ::
  "(string \<Rightarrow> 'fs \<Rightarrow> string + 'fs) \<Rightarrow> (string \<Rightarrow> string \<Rightarrow> 'fs \<Rightarrow> string + 'fs)
   \<Rightarrow> (int option \<Rightarrow> string + KeyPair) \<Rightarrow> (string \<Rightarrow> string + KeyPair)
   \<Rightarrow> (string \<Rightarrow> string \<Rightarrow> string)
   \<Rightarrow> SignatureConfig \<Rightarrow> string \<Rightarrow> string \<Rightarrow> 'fs \<Rightarrow> string + ((string \<times> string) \<times> 'fs)" where
  "generateAndSaveKeyPair ensureDir writeFile genRSA genEC join config outputDir keyName fs =
     (case ensureDir outputDir fs of
        Inl e \<Rightarrow> Inl e
      | Inr fs1 \<Rightarrow>
         (case (if algorithm config = ''RSA-SHA256'' then genRSA (keySize config)
                else if algorithm config = ''ECDSA-SHA256'' then
                  genEC (if keySize config = Some 256 then ''prime256v1''
                         else if keySize config = Some 384 then ''secp384r1''
                         else ''secp521r1'')
                else Inl (''Unsupported algorithm: '' @ algorithm config)) of
            Inl e \<Rightarrow> Inl e
          | Inr keyPair \<Rightarrow>
             (let privateKeyPath = join outputDir (keyName @ ''_private.pem'');
                  publicKeyPath = join outputDir (keyName @ ''_public.pem'')
              in case writeFile privateKeyPath (privateKey keyPair) fs1 of
                   Inl e \<Rightarrow> Inl e
                 | Inr fs2 \<Rightarrow>
                    (case writeFile publicKeyPath (publicKey keyPair) fs2 of
                       Inl e \<Rightarrow> Inl e
                     | Inr fs3 \<Rightarrow> Inr ((privateKeyPath, publicKeyPath), fs3)))))"

text \<open>
  An observer for the curve: run \<^const>\<open>generateAndSaveKeyPair\<close> on a store that
  never fails, with a generator that returns the name it was called with as the
  key material, and read back what was written as the private key.
\<close>

definition requested_curve :: "SignatureConfig \<Rightarrow> string + string" where
  "requested_curve config =
     (case generateAndSaveKeyPair (\<lambda>d fs. Inr fs) (\<lambda>p c fs. Inr (fs @ [c]))
             (\<lambda>n. Inl ''RSA'') (\<lambda>curve. Inr \<lparr>privateKey = curve, publicKey = []\<rparr>)
             (\<lambda>d n. n) config [] [] [] of
        Inl e \<Rightarrow> Inl e
      | Inr (paths, written) \<Rightarrow> Inr (hd written))"

section \<open>JavaScript values\<close>

text \<open>
  A value produced by \<^verbatim>\<open>JSON.parse\<close>. An object is its list of own properties in
  property order; the number type \<open>'n\<close> is left open, and what the code needs of
  a number (its rendering, its truthiness) is passed in.
\<close>

datatype 'n json = JNull | JBool bool | JNum 'n | JStr string
  | JArr "'n json list" | JObj "(string \<times> 'n json) list"

text \<open>JavaScript truthiness; \<open>None\<close> is \<^verbatim>\<open>undefined\<close>.\<close>

fun truthy :: "('n \<Rightarrow> bool) \<Rightarrow> 'n json option \<Rightarrow> bool" where
  "truthy nz None = False"
| "truthy nz (Some JNull) = False"
| "truthy nz (Some (JBool b)) = b"
| "truthy nz (Some (JNum n)) = nz n"
| "truthy nz (Some (JStr s)) = (s \<noteq> [])"
| "truthy nz (Some (JArr xs)) = True"
| "truthy nz (Some (JObj kvs)) = True"

text \<open>
  \<^verbatim>\<open>v.name\<close> for one of the names \<^verbatim>\<open>signature\<close>, \<^verbatim>\<open>publicKey\<close>,
  \<^verbatim>\<open>signatureTimestamp\<close> (no prototype defines them): reading a property of
  \<^verbatim>\<open>null\<close> throws a TypeError, a primitive or an array has no such property.
\<close>

fun get_property :: "string \<Rightarrow> 'n json \<Rightarrow> string + 'n json option" where
  "get_property name JNull =
     Inl (''Cannot read properties of null (reading '' @ [CHR 0x27] @ name @ [CHR 0x27] @ '')'')"
| "get_property name (JObj kvs) = Inr (map_of kvs name)"
| "get_property name v = Inr None"

text \<open>
  \<^verbatim>\<open>delete v.name\<close>: removes an own property of an object, does nothing on a
  primitive or on an array (that has no such property); on \<^verbatim>\<open>null\<close> it throws,
  which the callers below test first.
\<close>

fun delete_property :: "string \<Rightarrow> 'n json \<Rightarrow> 'n json" where
  "delete_property name (JObj kvs) = JObj (filter (\<lambda>(k, v). k \<noteq> name) kvs)"
| "delete_property name v = v"

text \<open>
  \<^verbatim>\<open>v.name = x\<close> in strict mode (module code): an object gets or updates the
  property; on an array the new property is not an index, so the JSON written
  later does not show it; on a primitive the assignment throws.
\<close>

fun set_property :: "string \<Rightarrow> 'n json \<Rightarrow> 'n json \<Rightarrow> string + 'n json" where
  "set_property name x (JObj kvs) =
     Inr (JObj (if name \<in> fst ` set kvs
                then map (\<lambda>(k, v). if k = name then (k, x) else (k, v)) kvs
                else kvs @ [(name, x)]))"
| "set_property name x (JArr xs) = Inr (JArr xs)"
| "set_property name x v = Inl (''Cannot create property '' @ name)"

definition digit_char :: "nat \<Rightarrow> char" where
  "digit_char d = (''0123456789abcdef'' ! (d mod 16))"

fun decimal :: "nat \<Rightarrow> string" where
  "decimal n = (if n < 10 then [digit_char n] else decimal (n div 10) @ [digit_char (n mod 10)])"

text \<open>
  \<^verbatim>\<open>Object.keys(v)\<close>: the own enumerable property names; the indices for an
  array or a string, none for another primitive. (For an object JavaScript lists
  integer-like names first; both callers sort the result at once.)
\<close>

fun Object_keys :: "'n json \<Rightarrow> string list" where
  "Object_keys (JObj kvs) = map fst kvs"
| "Object_keys (JArr xs) = map decimal [0..<length xs]"
| "Object_keys (JStr s) = map decimal [0..<length s]"
| "Object_keys v = []"

section \<open>JSON.stringify with an array replacer\<close>

text \<open>\<^verbatim>\<open>QuoteJSONString\<close> of ECMA-262, on 8-bit characters.\<close>

definition quote_char :: "char \<Rightarrow> string" where
  "quote_char c =
     (if c = CHR 0x22 then [CHR 0x5C, CHR 0x22]
      else if c = CHR 0x5C then [CHR 0x5C, CHR 0x5C]
      else if c = CHR 0x08 then [CHR 0x5C, CHR ''b'']
      else if c = CHR 0x0C then [CHR 0x5C, CHR ''f'']
      else if c = CHR 0x0A then [CHR 0x5C, CHR ''n'']
      else if c = CHR 0x0D then [CHR 0x5C, CHR ''r'']
      else if c = CHR 0x09 then [CHR 0x5C, CHR ''t'']
      else if of_char c < (0x20::nat) then
        [CHR 0x5C, CHR ''u'', CHR ''0'', CHR ''0'',
         digit_char (of_char c div 16), digit_char (of_char c)]
      else [c])"

definition QuoteJSONString :: "string \<Rightarrow> string" where
  "QuoteJSONString s = [CHR 0x22] @ concat (map quote_char s) @ [CHR 0x22]"

fun join_comma :: "string list \<Rightarrow> string" where
  "join_comma [] = []"
| "join_comma [x] = x"
| "join_comma (x # y # ys) = x @ '','' @ join_comma (y # ys)"

lemma map_of_size_json [termination_simp]:
  "map_of kvs k = Some v \<Longrightarrow> size v < Suc (size_list (\<lambda>x. Suc (size (snd x))) kvs)"
  by (induction kvs) (auto split: if_splits)

lemma member_size_json [termination_simp]:
  "(k, v) \<in> set kvs \<Longrightarrow> size v < Suc (size_list (\<lambda>x. Suc (size (snd x))) kvs)"
  by (induction kvs) auto

text \<open>
  \<^verbatim>\<open>SerializeJSONProperty\<close> with a property list \<open>K\<close> and no gap. For an object
  the members are taken in the order of \<open>K\<close>, at every depth: each name \<open>P\<close> of
  \<open>K\<close> is read with \<^verbatim>\<open>Get(value, P)\<close> and skipped when the result is
  \<^verbatim>\<open>undefined\<close>. A name the object does not own is looked up in
  \<^verbatim>\<open>Object.prototype\<close>: its methods are functions and are skipped, and
  \<^verbatim>\<open>__proto__\<close> reads as \<^verbatim>\<open>Object.prototype\<close> itself, whose only member
  under \<open>K\<close> is again \<^verbatim>\<open>__proto__\<close>, now \<^verbatim>\<open>null\<close>. Arrays are serialized
  element by element.
\<close>

fun SerializeJSONProperty :: "('n \<Rightarrow> string) \<Rightarrow> string list \<Rightarrow> 'n json \<Rightarrow> string" where
  "SerializeJSONProperty num K JNull = ''null''"
| "SerializeJSONProperty num K (JBool b) = (if b then ''true'' else ''false'')"
| "SerializeJSONProperty num K (JNum n) = num n"
| "SerializeJSONProperty num K (JStr s) = QuoteJSONString s"
| "SerializeJSONProperty num K (JArr xs) =
     ''['' @ join_comma (map (SerializeJSONProperty num K) xs) @ '']''"
| "SerializeJSONProperty num K (JObj kvs) =
     ''{'' @ join_comma (concat (map (\<lambda>P.
        case map_of kvs P of
          Some v \<Rightarrow> [QuoteJSONString P @ '':'' @ SerializeJSONProperty num K v]
        | None \<Rightarrow> (if P = ''__proto__''
                   then [QuoteJSONString P @ '':{'' @ QuoteJSONString P @ '':null}'']
                   else [])) K)) @ ''}''"

text \<open>
  The property list of an array replacer: its items in order, each once.
\<close>

definition PropertyList :: "string list \<Rightarrow> string list" where
  "PropertyList replacer =
     foldl (\<lambda>K item. if item \<in> set K then K else K @ [item]) [] replacer"

definition JSON_stringify :: "('n \<Rightarrow> string) \<Rightarrow> 'n json \<Rightarrow> string list \<Rightarrow> string" where
  "JSON_stringify num v replacer = SerializeJSONProperty num (PropertyList replacer) v"

section \<open>Manifest canonicalization (signManifest, verifyManifest)\<close>

definition strip_signature :: "'n json \<Rightarrow> 'n json" where
  "strip_signature manifest =
     delete_property ''signatureTimestamp''
       (delete_property ''publicKey'' (delete_property ''signature'' manifest))"

text \<open>
  The fragment both functions share:
  \<^verbatim>\<open>delete manifest.signature; delete manifest.publicKey;
  delete manifest.signatureTimestamp;
  JSON.stringify(manifest, Object.keys(manifest).sort())\<close>.
  \<^verbatim>\<open>sort()\<close> without a comparator orders strings by code unit, which on
  8-bit characters is the lexicographic order of \<open>string\<close>.
\<close>

definition canonical_keys :: "'n json \<Rightarrow> string list" where
  "canonical_keys manifest = sort (Object_keys manifest)"

definition canonicalManifest :: "('n \<Rightarrow> string) \<Rightarrow> 'n json \<Rightarrow> string + string" where
  "canonicalManifest num parsed =
     (if parsed = JNull then Inl ''Cannot convert undefined or null to object''
      else let manifest = strip_signature parsed
           in Inr (JSON_stringify num manifest (canonical_keys manifest)))"

text \<open>
  Two values have the same fields when they are equal up to the order of the
  properties of the objects in them, at every depth.
\<close>

fun same_fields :: "'n json \<Rightarrow> 'n json \<Rightarrow> bool" where
  "same_fields (JObj a) (JObj b) =
     (distinct (map fst a) \<and> distinct (map fst b) \<and> set (map fst a) = set (map fst b) \<and>
      (\<forall>(k, v) \<in> set a. \<forall>(k', w) \<in> set b. k = k' \<longrightarrow> same_fields v w))"
| "same_fields (JArr xs) (JArr ys) = list_all2 same_fields xs ys"
| "same_fields x y = (x = y)"

section \<open>Signing and verification (DigitalSignature)\<close>

text \<open>
  What the class takes from Node.js, as parameters. A call that can throw returns
  \<open>Inl message\<close>, the message being what the \<^verbatim>\<open>catch\<close> blocks read
  (\<^verbatim>\<open>error.message\<close> or \<^verbatim>\<open>String(error)\<close>). Byte strings are \<open>string\<close>s.
  \<^item> \<open>crypto_sign h data key\<close>: \<^verbatim>\<open>crypto.createSign(h)\<close>, \<^verbatim>\<open>update(data)\<close>,
    \<^verbatim>\<open>sign(key)\<close>; \<open>h\<close> is \<open>None\<close> when the code passes \<^verbatim>\<open>undefined\<close>;
  \<^item> \<open>crypto_public key\<close>: \<^verbatim>\<open>createPublicKey(createPrivateKey(key))\<close> exported
    as SPKI PEM;
  \<^item> \<open>crypto_verify h data key sig\<close>: \<^verbatim>\<open>crypto.createVerify(h)\<close>,
    \<^verbatim>\<open>update(data)\<close>, \<^verbatim>\<open>verify(key, sig)\<close>; the key is the run-time value the
    caller has, a string or whatever the manifest holds;
  \<^item> \<open>base64\<close> and \<open>from_base64\<close>: \<^verbatim>\<open>buffer.toString("base64")\<close> and
    \<^verbatim>\<open>Buffer.from(s, "base64")\<close>;
  \<^item> \<open>Date_now\<close>: the clock; \<open>Number_toString\<close> and \<open>Number_truthy\<close>: the
    rendering of a number in JSON and its truthiness;
  \<^item> \<open>fs_readFile\<close>, \<open>fs_writeJSON\<close>, \<open>JSON_parse\<close> over a file store \<open>'fs\<close>.
\<close>

record ('n, 'fs) node =
  crypto_sign :: "string option \<Rightarrow> string \<Rightarrow> string \<Rightarrow> string + string"
  crypto_public :: "string \<Rightarrow> string + string"
  crypto_verify :: "string option \<Rightarrow> string \<Rightarrow> 'n json \<Rightarrow> string \<Rightarrow> string + bool"
  base64 :: "string \<Rightarrow> string"
  from_base64 :: "string \<Rightarrow> string"
  Date_now :: 'n
  Number_toString :: "'n \<Rightarrow> string"
  Number_truthy :: "'n \<Rightarrow> bool"
  fs_readFile :: "string \<Rightarrow> 'fs \<Rightarrow> string + string"
  fs_writeJSON :: "string \<Rightarrow> 'n json \<Rightarrow> 'fs \<Rightarrow> string + 'fs"
  JSON_parse :: "string \<Rightarrow> string + 'n json"

record 'n SignatureResult =
  sr_signature :: string
  sr_algorithm :: string
  sr_publicKey :: string
  sr_timestamp :: 'n

record 'n VerificationResult =
  isValid :: bool
  error :: "string option"
  vr_algorithm :: "string option"
  vr_timestamp :: "'n json option"

text \<open>
  \<^verbatim>\<open>try { body } catch (error) { handler(message) }\<close>: the handler decides
  whether the exception goes on (\<open>Inl\<close>) or becomes a value (\<open>Inr\<close>).
\<close>

definition try_catch :: "(string + 'a) \<Rightarrow> (string \<Rightarrow> string + 'a) \<Rightarrow> string + 'a" where
  "try_catch body handler = (case body of Inl message \<Rightarrow> handler message | Inr v \<Rightarrow> Inr v)"

text \<open>
  \<^verbatim>\<open>s.split(c)\<close> for a one-character separator, and \<^verbatim>\<open>s.split(c, limit)\<close>,
  which splits at every separator and keeps the first \<open>limit\<close> pieces.
\<close>

fun split_char :: "char \<Rightarrow> string \<Rightarrow> string list" where
  "split_char c [] = [[]]"
| "split_char c (x # xs) =
     (if x = c then [] # split_char c xs
      else (case split_char c xs of [] \<Rightarrow> [[x]] | p # ps \<Rightarrow> (x # p) # ps))"

definition split_limit :: "char \<Rightarrow> nat \<Rightarrow> string \<Rightarrow> string list" where
  "split_limit c limit s = take limit (split_char c s)"

text \<open>\<^verbatim>\<open>xs[i]\<close>: \<^verbatim>\<open>undefined\<close> past the end.\<close>

definition at_index :: "'a list \<Rightarrow> nat \<Rightarrow> 'a option" where
  "at_index xs i = (if i < length xs then Some (xs ! i) else None)"

definition startsWith :: "string \<Rightarrow> string \<Rightarrow> bool" where
  "startsWith s p = (take (length p) s = p)"

text \<open>
  \<^verbatim>\<open>signData(data, privateKey)\<close>; its \<^verbatim>\<open>catch\<close> rethrows with a prefix.
\<close>

definition signData ::
  "('n, 'fs) node \<Rightarrow> SignatureConfig \<Rightarrow> string \<Rightarrow> string \<Rightarrow> string + 'n SignatureResult" where
  "signData N config data key =
     try_catch
       (let alg = algorithm config;
            hashAlgorithm = at_index (split_char CHR ''-'' alg) 1
        in case (if startsWith alg ''RSA'' then
                   (case crypto_sign N hashAlgorithm data key of
                      Inl e \<Rightarrow> Inl e
                    | Inr signatureBuffer \<Rightarrow> Inr (base64 N signatureBuffer))
                 else if startsWith alg ''ECDSA'' then
                   (case crypto_sign N hashAlgorithm data key of
                      Inl e \<Rightarrow> Inl e
                    | Inr signatureBuffer \<Rightarrow> Inr (base64 N signatureBuffer))
                 else Inl (''Unsupported algorithm: '' @ alg)) of
             Inl e \<Rightarrow> Inl e
           | Inr sig \<Rightarrow>
              (case crypto_public N key of
                 Inl e \<Rightarrow> Inl e
               | Inr pub \<Rightarrow>
                  Inr \<lparr>sr_signature = alg @ '':'' @ sig, sr_algorithm = alg,
                       sr_publicKey = pub, sr_timestamp = Date_now N\<rparr>))
       (\<lambda>message. Inl (''Failed to sign data: '' @ message))"

definition invalid_format_message :: string where
  "invalid_format_message =
     ''Invalid signature format. Expected '' @ [CHR 0x27] @ ''ALGORITHM:SIGNATURE'' @ [CHR 0x27]"

text \<open>
  \<^verbatim>\<open>verifySignature(data, signatureWithAlgorithm, publicKey)\<close>. The second
  argument is declared a string; \<^verbatim>\<open>verifyManifest\<close> passes what the manifest
  holds, and on anything but a string the call of \<^verbatim>\<open>split\<close> throws inside the
  \<^verbatim>\<open>try\<close>. The \<^verbatim>\<open>catch\<close> returns a result.
\<close>

definition verifySignature ::
  "('n, 'fs) node \<Rightarrow> string \<Rightarrow> 'n json \<Rightarrow> 'n json \<Rightarrow> string + 'n VerificationResult" where
  "verifySignature N data signatureWithAlgorithm pub =
     try_catch
       (case signatureWithAlgorithm of
          JStr s \<Rightarrow>
            (let parts = split_limit CHR '':'' 2 s;
                 alg = at_index parts 0;
                 sig = at_index parts 1
             in if alg = None \<or> alg = Some [] \<or> sig = None \<or> sig = Some [] then
                  Inr \<lparr>isValid = False,
                       error = Some invalid_format_message,
                       vr_algorithm = None, vr_timestamp = None\<rparr>
                else
                  (let hashAlgorithm = at_index (split_char CHR ''-'' (the alg)) 1;
                       signatureBuffer = from_base64 N (the sig)
                   in case crypto_verify N hashAlgorithm data pub signatureBuffer of
                        Inl e \<Rightarrow> Inl e
                      | Inr ok \<Rightarrow>
                         Inr \<lparr>isValid = ok, error = None, vr_algorithm = alg,
                              vr_timestamp = Some (JNum (Date_now N))\<rparr>))
        | _ \<Rightarrow> Inl ''signatureWithAlgorithm.split is not a function'')
       (\<lambda>message. Inr \<lparr>isValid = False, error = Some (''Verification failed: '' @ message),
                       vr_algorithm = None, vr_timestamp = None\<rparr>)"

text \<open>
  \<^verbatim>\<open>signManifest(manifestPath, privateKeyPath)\<close>: reads and parses the manifest,
  canonicalizes it, signs, writes the three fields back and persists. It returns
  the signature result and the new file store.
\<close>

definition signManifest ::
  "('n, 'fs) node \<Rightarrow> SignatureConfig \<Rightarrow> string \<Rightarrow> string \<Rightarrow> 'fs
   \<Rightarrow> string + ('n SignatureResult \<times> 'fs)" where
  "signManifest N config manifestPath keyPath fs =
     try_catch
       (case fs_readFile N manifestPath fs of
          Inl e \<Rightarrow> Inl e
        | Inr manifestContent \<Rightarrow>
       (case JSON_parse N manifestContent of
          Inl e \<Rightarrow> Inl e
        | Inr parsed \<Rightarrow>
       (case canonicalManifest (Number_toString N) parsed of
          Inl e \<Rightarrow> Inl e
        | Inr canonical \<Rightarrow>
       (case fs_readFile N keyPath fs of
          Inl e \<Rightarrow> Inl e
        | Inr key \<Rightarrow>
       (case signData N config canonical key of
          Inl e \<Rightarrow> Inl e
        | Inr signatureResult \<Rightarrow>
       (case set_property ''signature'' (JStr (sr_signature signatureResult))
               (strip_signature parsed) of
          Inl e \<Rightarrow> Inl e
        | Inr m1 \<Rightarrow>
       (case set_property ''publicKey'' (JStr (sr_publicKey signatureResult)) m1 of
          Inl e \<Rightarrow> Inl e
        | Inr m2 \<Rightarrow>
       (case set_property ''signatureTimestamp'' (JNum (sr_timestamp signatureResult)) m2 of
          Inl e \<Rightarrow> Inl e
        | Inr m3 \<Rightarrow>
       (case fs_writeJSON N manifestPath m3 fs of
          Inl e \<Rightarrow> Inl e
        | Inr fs' \<Rightarrow> Inr (signatureResult, fs'))))))))))
       (\<lambda>message. Inl (''Failed to sign manifest: '' @ message))"

text \<open>
  \<^verbatim>\<open>verifyManifest(manifestPath, publicKeyPath?)\<close>; an absent or empty
  \<open>publicKeyPath\<close> is falsy. The \<^verbatim>\<open>catch\<close> returns a result.
\<close>

definition verifyManifest ::
  "('n, 'fs) node \<Rightarrow> string \<Rightarrow> string option \<Rightarrow> 'fs \<Rightarrow> string + 'n VerificationResult" where
  "verifyManifest N manifestPath keyPath fs =
     try_catch
       (case fs_readFile N manifestPath fs of
          Inl e \<Rightarrow> Inl e
        | Inr manifestContent \<Rightarrow>
       (case JSON_parse N manifestContent of
          Inl e \<Rightarrow> Inl e
        | Inr parsed \<Rightarrow>
       (case get_property ''signature'' parsed of
          Inl e \<Rightarrow> Inl e
        | Inr sig \<Rightarrow>
           if \<not> truthy (Number_truthy N) sig then
             Inr \<lparr>isValid = False, error = Some ''No signature found in manifest'',
                  vr_algorithm = None, vr_timestamp = None\<rparr>
           else
       (case (if keyPath \<noteq> None \<and> keyPath \<noteq> Some [] then
                (case fs_readFile N (the keyPath) fs of
                   Inl e \<Rightarrow> Inl e
                 | Inr content \<Rightarrow> Inr (Some (JStr content)))
              else (case get_property ''publicKey'' parsed of
                      Inl e \<Rightarrow> Inl e
                    | Inr pk \<Rightarrow> Inr (if truthy (Number_truthy N) pk then pk else None))) of
          Inl e \<Rightarrow> Inl e
        | Inr None \<Rightarrow>
            Inr \<lparr>isValid = False, error = Some ''No public key available for verification'',
                 vr_algorithm = None, vr_timestamp = None\<rparr>
        | Inr (Some pub) \<Rightarrow>
       (case get_property ''signatureTimestamp'' parsed of
          Inl e \<Rightarrow> Inl e
        | Inr signatureTimestamp \<Rightarrow>
       (case canonicalManifest (Number_toString N) parsed of
          Inl e \<Rightarrow> Inl e
        | Inr canonical \<Rightarrow>
       (case verifySignature N canonical (the sig) pub of
          Inl e \<Rightarrow> Inl e
        | Inr result \<Rightarrow> Inr (result\<lparr>vr_timestamp := signatureTimestamp\<rparr>))))))))
       (\<lambda>message. Inr \<lparr>isValid = False, error = Some (''Verification failed: '' @ message),
                       vr_algorithm = None, vr_timestamp = None\<rparr>)"

section \<open>The build orchestrator (HotUpdateBuilder)\<close>

record BuildConfig =
  platforms :: "string list"
  version :: string
  projectPath :: string
  outputPath :: string
  bundleName :: "string option"
  sourcemap :: "bool option"
  minify :: "bool option"

record BundleConfig =
  entryFile :: string
  bc_bundlePath :: string
  assetsDest :: string
  sourcemapOutput :: "string option"
  bc_platform :: string
  dev :: bool
  bc_minify :: bool
  resetCache :: bool

record BuildResult =
  success :: bool
  platform :: string
  bundlePath :: string
  assetsPath :: "string option"
  zipPath :: string
  br_size :: nat
  br_error :: "string option"

text \<open>
  An operation on the outside world \<open>'w\<close> (the file system, the bundler
  process) returns its result, or \<open>Inl message\<close> when it throws, together with
  the world it leaves behind; \<open>message\<close> is what the \<^verbatim>\<open>catch\<close> blocks record
  (\<^verbatim>\<open>error.message\<close>, or \<^verbatim>\<open>"Unknown error"\<close> for a thrown value that is not an
  \<^verbatim>\<open>Error\<close>).
\<close>

type_synonym ('a, 'w) io = "'w \<Rightarrow> (string + 'a) \<times> 'w"

definition then_do :: "('a, 'w) io \<Rightarrow> ('a \<Rightarrow> ('b, 'w) io) \<Rightarrow> ('b, 'w) io" where
  "then_do m f w = (case m w of (Inl e, w') \<Rightarrow> (Inl e, w') | (Inr x, w') \<Rightarrow> f x w')"

definition return_io :: "'a \<Rightarrow> ('a, 'w) io" where
  "return_io x w = (Inr x, w)"

definition throw_io :: "string \<Rightarrow> ('a, 'w) io" where
  "throw_io message w = (Inl message, w)"

text \<open>
  The collaborators of \<^verbatim>\<open>buildPlatform\<close>, as parameters: fs-extra
  (\<open>ensureDir\<close>, \<open>stat_size\<close>), \<^verbatim>\<open>path.join\<close>, the private helpers
  \<^verbatim>\<open>findEntryFile\<close>, \<^verbatim>\<open>copyAdditionalAssets\<close>, \<^verbatim>\<open>analyzeMetroAssets\<close>,
  \<^verbatim>\<open>verifyAssetConsistency\<close> (its warnings), \<^verbatim>\<open>generateHotUpdateManifest\<close>,
  \<^verbatim>\<open>createZipFile\<close>, and the \<^verbatim>\<open>BundleBuilder\<close> methods \<^verbatim>\<open>buildBundle\<close>
  (which runs the external bundler) and \<^verbatim>\<open>validateBundle\<close>. The asset list
  type \<open>'a\<close> is left open here.
\<close>

record ('a, 'w) stages =
  ensureDir :: "string \<Rightarrow> (unit, 'w) io"
  stat_size :: "string \<Rightarrow> (nat, 'w) io"
  path_join :: "string \<Rightarrow> string \<Rightarrow> string"
  findEntryFile :: "'w \<Rightarrow> string"
  buildBundle :: "BundleConfig \<Rightarrow> (unit, 'w) io"
  validateBundle :: "string \<Rightarrow> (bool, 'w) io"
  copyAdditionalAssets :: "string \<Rightarrow> ('a list, 'w) io"
  analyzeMetroAssets_stage :: "string \<Rightarrow> ('a list, 'w) io"
  verifyAssetConsistency_stage :: "string \<Rightarrow> string \<Rightarrow> (string list, 'w) io"
  generateHotUpdateManifest :: "string \<Rightarrow> string \<Rightarrow> 'a list \<Rightarrow> string \<Rightarrow> (unit, 'w) io"
  createZipFile :: "string \<Rightarrow> string \<Rightarrow> (string, 'w) io"

text \<open>
  \<^verbatim>\<open>buildPlatform(platform)\<close>. The two \<^verbatim>\<open>ensureDir\<close> calls and
  \<^verbatim>\<open>findEntryFile\<close> come before the \<^verbatim>\<open>try\<close>; everything from
  \<^verbatim>\<open>buildBundle\<close> to the \<^verbatim>\<open>stat\<close> of the archive is inside it, and its
  \<^verbatim>\<open>catch\<close> returns a failed result.
\<close>

definition buildPlatform :: "('a, 'w) stages \<Rightarrow> BuildConfig \<Rightarrow> string \<Rightarrow> (BuildResult, 'w) io" where
  "buildPlatform S config p =
     (let platformDir = path_join S (outputPath config) p;
          bundleDir = path_join S platformDir ''bundles'';
          assetsDir = path_join S platformDir ''assets''
      in then_do (ensureDir S bundleDir) (\<lambda>_.
         then_do (ensureDir S assetsDir) (\<lambda>_. (\<lambda>w.
           (let name = (case bundleName config of None \<Rightarrow> ''index''
                        | Some n \<Rightarrow> if n = [] then ''index'' else n);
                bundle = path_join S bundleDir (name @ ''.'' @ p @ ''.bundle'');
                sourcemapPath = (if sourcemap config = Some True
                                 then Some (path_join S bundleDir (name @ ''.'' @ p @ ''.map''))
                                 else None);
                bundleConfig = \<lparr>entryFile = findEntryFile S w, bc_bundlePath = bundle,
                                assetsDest = assetsDir, sourcemapOutput = sourcemapPath,
                                bc_platform = p, dev = False, bc_minify = True,
                                resetCache = False\<rparr>
            in case
                 then_do (buildBundle S bundleConfig) (\<lambda>_.
                 then_do (validateBundle S bundle) (\<lambda>isValid.
                 if \<not> isValid then throw_io ''Bundle validation failed'' else
                 then_do (copyAdditionalAssets S assetsDir) (\<lambda>additionalAssets.
                 then_do (analyzeMetroAssets_stage S assetsDir) (\<lambda>metroAssets.
                 then_do (verifyAssetConsistency_stage S bundle assetsDir) (\<lambda>warnings.
                 then_do (generateHotUpdateManifest S p bundle
                            (metroAssets @ additionalAssets) platformDir) (\<lambda>_.
                 then_do (createZipFile S p platformDir) (\<lambda>zip.
                 then_do (stat_size S zip) (\<lambda>zipSize.
                 return_io \<lparr>success = True, platform = p, bundlePath = bundle,
                             assetsPath = Some assetsDir, zipPath = zip, br_size = zipSize,
                             br_error = None\<rparr>)))))))) w
               of
                 (Inr result, w') \<Rightarrow> (Inr result, w')
               | (Inl message, w') \<Rightarrow>
                   (Inr \<lparr>success = False, platform = p, bundlePath = bundle,
                         assetsPath = None, zipPath = [], br_size = 0,
                         br_error = Some message\<rparr>, w'))))))"

text \<open>
  One turn of the loop of \<^verbatim>\<open>buildAllPlatforms\<close>: the \<^verbatim>\<open>try\<close> pushes the
  result of \<^verbatim>\<open>buildPlatform\<close>, the \<^verbatim>\<open>catch\<close> pushes a failed result.
\<close>

definition build_one :: "('a, 'w) stages \<Rightarrow> BuildConfig \<Rightarrow> string \<Rightarrow> 'w \<Rightarrow> BuildResult \<times> 'w" where
  "build_one S config p w =
     (case buildPlatform S config p w of
        (Inr result, w') \<Rightarrow> (result, w')
      | (Inl errorMessage, w') \<Rightarrow>
          (\<lparr>success = False, platform = p, bundlePath = [], assetsPath = None,
            zipPath = [], br_size = 0, br_error = Some errorMessage\<rparr>, w'))"

fun build_loop ::
  "('a, 'w) stages \<Rightarrow> BuildConfig \<Rightarrow> string list \<Rightarrow> BuildResult list \<Rightarrow> 'w \<Rightarrow> BuildResult list \<times> 'w" where
  "build_loop S config [] results w = (results, w)"
| "build_loop S config (p # ps) results w =
     (case build_one S config p w of (result, w') \<Rightarrow> build_loop S config ps (results @ [result]) w')"

text \<open>
  \<^verbatim>\<open>buildAllPlatforms()\<close>: the output directory is ensured before the loop,
  outside any \<^verbatim>\<open>try\<close>.
\<close>

definition buildAllPlatforms :: "('a, 'w) stages \<Rightarrow> BuildConfig \<Rightarrow> (BuildResult list, 'w) io" where
  "buildAllPlatforms S config =
     then_do (ensureDir S (outputPath config)) (\<lambda>_ w.
       case build_loop S config (platforms config) [] w of (results, w') \<Rightarrow> (Inr results, w'))"

text \<open>
  The exit status of the \<^verbatim>\<open>build\<close> command action (index.ts) once it has a
  builder: \<^verbatim>\<open>process.exit(1)\<close> when some result failed or when
  \<^verbatim>\<open>buildAllPlatforms\<close> threw, otherwise the action ends normally (status 0).
\<close>

definition build_exit_status :: "('a, 'w) stages \<Rightarrow> BuildConfig \<Rightarrow> 'w \<Rightarrow> nat" where
  "build_exit_status S config w =
     (case buildAllPlatforms S config w of
        (Inr results, w') \<Rightarrow> if filter (\<lambda>r. \<not> success r) results \<noteq> [] then 1 else 0
      | (Inl e, w') \<Rightarrow> 1)"

section \<open>Asset collection (analyzeMetroAssets, BundleBuilder.copyAssets)\<close>

text \<open>
  \<^verbatim>\<open>AssetFile\<close>, with the optional \<^verbatim>\<open>sha256\<close> of the later declaration;
  \<^verbatim>\<open>width\<close> and \<^verbatim>\<open>height\<close> are never set by the code modelled.
\<close>

record AssetFile =
  a_name :: string
  a_type :: string
  httpServerLocation :: string
  scales :: "rat list"
  a_hash :: string
  sha256 :: "string option"

record Stats =
  isFile :: bool
  mtime :: nat
  st_size :: nat

text \<open>
  The file-system and path calls, as parameters: \<^verbatim>\<open>path.join\<close>,
  \<^verbatim>\<open>path.basename\<close>, \<^verbatim>\<open>path.dirname\<close>, \<^verbatim>\<open>path.extname\<close>,
  \<^verbatim>\<open>path.parse(p).name\<close>; \<^verbatim>\<open>fs.pathExists\<close>, \<^verbatim>\<open>fs.readdir\<close>,
  \<^verbatim>\<open>fs.stat\<close> (\<open>mtime\<close> in epoch milliseconds), \<^verbatim>\<open>fs.readFile\<close>,
  \<^verbatim>\<open>fs.ensureDir\<close>, \<^verbatim>\<open>fs.copy\<close>, \<^verbatim>\<open>glob\<close>; \<open>f_readStream\<close> is
  \<^verbatim>\<open>fs.createReadStream\<close>: the chunks of the \<^verbatim>\<open>data\<close> events up to \<^verbatim>\<open>end\<close>,
  or the \<^verbatim>\<open>error\<close> event; \<open>f_sha256_hex\<close> is the hex SHA-256 digest of a byte
  string.
\<close>

record 'w files =
  f_join :: "string \<Rightarrow> string \<Rightarrow> string"
  f_basename :: "string \<Rightarrow> string"
  f_dirname :: "string \<Rightarrow> string"
  f_extname :: "string \<Rightarrow> string"
  f_parse_name :: "string \<Rightarrow> string"
  f_pathExists :: "string \<Rightarrow> (bool, 'w) io"
  f_readdir :: "string \<Rightarrow> (string list, 'w) io"
  f_stat :: "string \<Rightarrow> (Stats, 'w) io"
  f_readFile :: "string \<Rightarrow> (string, 'w) io"
  f_ensureDir :: "string \<Rightarrow> (unit, 'w) io"
  f_copy :: "string \<Rightarrow> string \<Rightarrow> (unit, 'w) io"
  f_glob :: "string \<Rightarrow> string list \<Rightarrow> (string list, 'w) io"
  f_readStream :: "string \<Rightarrow> (string list, 'w) io"
  f_sha256_hex :: "string \<Rightarrow> string"

text \<open>\<^verbatim>\<open>getDensityScale(dirName)\<close>: \<^verbatim>\<open>scaleMap[dirName] || [1]\<close>.\<close>

definition getDensityScale :: "string \<Rightarrow> rat list" where
  "getDensityScale dirName =
     (case map_of [(''drawable-mdpi'', [1]), (''drawable-hdpi'', [3 / 2]),
                   (''drawable-xhdpi'', [2]), (''drawable-xxhdpi'', [3]),
                   (''drawable-xxxhdpi'', [4]), (''raw'', [1])] dirName of
        Some s \<Rightarrow> s
      | None \<Rightarrow> [1])"

text \<open>
  \<^verbatim>\<open>analyzeMetroAssets(assetsDir)\<close> (HotUpdateBuilder): the inner loop over the
  files of one directory, the outer loop over the fixed directory list. The
  record it builds has no \<^verbatim>\<open>sha256\<close> property.
\<close>

fun analyze_files ::
  "'w files \<Rightarrow> string \<Rightarrow> string \<Rightarrow> string list \<Rightarrow> AssetFile list \<Rightarrow> (AssetFile list, 'w) io" where
  "analyze_files F dir dirPath [] assetFiles = return_io assetFiles"
| "analyze_files F dir dirPath (file # rest) assetFiles =
     then_do (f_stat F (f_join F dirPath file)) (\<lambda>stats.
       if isFile stats then
         analyze_files F dir dirPath rest
           (assetFiles @ [\<lparr>a_name = file, a_type = drop 1 (f_extname F file),
                           httpServerLocation = dir @ ''/'' @ file,
                           scales = getDensityScale dir,
                           a_hash = decimal (mtime stats),
                           sha256 = None\<rparr>])
       else analyze_files F dir dirPath rest assetFiles)"

fun analyze_dirs ::
  "'w files \<Rightarrow> string \<Rightarrow> string list \<Rightarrow> AssetFile list \<Rightarrow> (AssetFile list, 'w) io" where
  "analyze_dirs F assetsDir [] assetFiles = return_io assetFiles"
| "analyze_dirs F assetsDir (dir # rest) assetFiles =
     (let dirPath = f_join F assetsDir dir
      in then_do (f_pathExists F dirPath) (\<lambda>exists.
           if exists then
             then_do (f_readdir F dirPath) (\<lambda>files.
             then_do (analyze_files F dir dirPath files assetFiles) (\<lambda>assetFiles'.
               analyze_dirs F assetsDir rest assetFiles'))
           else analyze_dirs F assetsDir rest assetFiles))"

definition analyzeMetroAssets :: "'w files \<Rightarrow> string \<Rightarrow> (AssetFile list, 'w) io" where
  "analyzeMetroAssets F assetsDir =
     analyze_dirs F assetsDir
       [''drawable-mdpi'', ''drawable-hdpi'', ''drawable-xhdpi'', ''drawable-xxhdpi'',
        ''drawable-xxxhdpi'', ''raw''] []"

text \<open>
  \<^verbatim>\<open>calculateSHA256(filePath)\<close> (BundleBuilder): every chunk of the stream is
  fed to the hash with \<^verbatim>\<open>hash.update\<close>, and \<^verbatim>\<open>end\<close> resolves with the hex
  digest; the accumulator is modelled by the bytes fed so far.
\<close>

definition calculateSHA256 :: "'w files \<Rightarrow> string \<Rightarrow> (string, 'w) io" where
  "calculateSHA256 F filePath =
     then_do (f_readStream F filePath) (\<lambda>chunks.
       return_io (f_sha256_hex F (foldl (\<lambda>fed chunk. fed @ chunk) [] chunks)))"

text \<open>
  \<^verbatim>\<open>copyAssets(sourcePatterns, destDir, excludePatterns)\<close> (BundleBuilder, the
  version with integrity hashes).
\<close>

fun copy_files ::
  "'w files \<Rightarrow> string \<Rightarrow> string \<Rightarrow> string list \<Rightarrow> AssetFile list \<Rightarrow> (AssetFile list, 'w) io" where
  "copy_files F projectRoot destDir [] copiedAssets = return_io copiedAssets"
| "copy_files F projectRoot destDir (file # rest) copiedAssets =
     (let sourcePath = f_join F projectRoot file;
          destPath = f_join F destDir file
      in then_do (f_ensureDir F (f_dirname F destPath)) (\<lambda>_.
         then_do (f_copy F sourcePath destPath) (\<lambda>_.
         then_do (f_stat F sourcePath) (\<lambda>stats.
         then_do (if isFile stats then calculateSHA256 F sourcePath else return_io []) (\<lambda>sha256Hash.
           copy_files F projectRoot destDir rest
             (copiedAssets @ [\<lparr>a_name = f_basename F file, a_type = drop 1 (f_extname F file),
                               httpServerLocation =
                                 map (\<lambda>c. if c = CHR 0x5C then CHR ''/'' else c) (''assets/'' @ file),
                               scales = [1],
                               a_hash = decimal (mtime stats),
                               sha256 = Some sha256Hash\<rparr>]))))))"

fun copy_patterns ::
  "'w files \<Rightarrow> string \<Rightarrow> string \<Rightarrow> string list \<Rightarrow> string list \<Rightarrow> AssetFile list
   \<Rightarrow> (AssetFile list, 'w) io" where
  "copy_patterns F projectRoot destDir excludePatterns [] copiedAssets = return_io copiedAssets"
| "copy_patterns F projectRoot destDir excludePatterns (pattern # rest) copiedAssets =
     then_do (f_glob F pattern excludePatterns) (\<lambda>files.
     then_do (copy_files F projectRoot destDir files copiedAssets) (\<lambda>copiedAssets'.
       copy_patterns F projectRoot destDir excludePatterns rest copiedAssets'))"

definition copyAssets ::
  "'w files \<Rightarrow> string \<Rightarrow> string list \<Rightarrow> string \<Rightarrow> string list \<Rightarrow> (AssetFile list, 'w) io" where
  "copyAssets F projectRoot sourcePatterns destDir excludePatterns =
     copy_patterns F projectRoot destDir excludePatterns sourcePatterns []"


section \<open>Asset consistency check (verifyAssetConsistency)\<close>

text \<open>
  The fragment of JavaScript regular expressions the two patterns use: literal
  text, a character class or its negation, \<^verbatim>\<open>+\<close> on a class (greedy),
  sequence, alternation and one capturing group.
\<close>

datatype regex =
    Lit string
  | OneOf string
  | NoneOf string
  | PlusOneOf string
  | PlusNoneOf string
  | Seq regex regex
  | Alt regex regex
  | Group regex

text \<open>
  Backtracking matcher: all the ways the pattern matches a prefix of the input,
  in the order the engine tries them, each as the rest of the input and the
  text of the group if it was passed.
\<close>

fun longest_first :: "nat \<Rightarrow> string \<Rightarrow> string option \<Rightarrow> (string \<times> string option) list" where
  "longest_first 0 s cap = []"
| "longest_first (Suc n) s cap = (drop (Suc n) s, cap) # longest_first n s cap"

fun matches :: "regex \<Rightarrow> string \<Rightarrow> string option \<Rightarrow> (string \<times> string option) list" where
  "matches (Lit t) s cap = (if take (length t) s = t then [(drop (length t) s, cap)] else [])"
| "matches (OneOf cs) s cap =
     (case s of [] \<Rightarrow> [] | c # rest \<Rightarrow> if c \<in> set cs then [(rest, cap)] else [])"
| "matches (NoneOf cs) s cap =
     (case s of [] \<Rightarrow> [] | c # rest \<Rightarrow> if c \<notin> set cs then [(rest, cap)] else [])"
| "matches (PlusOneOf cs) s cap =
     longest_first (length (takeWhile (\<lambda>c. c \<in> set cs) s)) s cap"
| "matches (PlusNoneOf cs) s cap =
     longest_first (length (takeWhile (\<lambda>c. c \<notin> set cs) s)) s cap"
| "matches (Seq r1 r2) s cap =
     concat (map (\<lambda>(rest, cap'). matches r2 rest cap') (matches r1 s cap))"
| "matches (Alt r1 r2) s cap = matches r1 s cap @ matches r2 s cap"
| "matches (Group r) s cap =
     map (\<lambda>(rest, cap'). (rest, Some (take (length s - length rest) s))) (matches r s cap)"

text \<open>
  The loop \<^verbatim>\<open>while ((match = pattern.exec(text)) !== null)\<close> of a global
  pattern: the leftmost match is taken, its group is collected, and the search
  goes on where the match ended. \<open>skip\<close> counts the characters of the current
  match still to pass.
\<close>

fun exec_all :: "regex \<Rightarrow> nat \<Rightarrow> string \<Rightarrow> string option list" where
  "exec_all r skip [] = []"
| "exec_all r (Suc k) (c # cs) = exec_all r k cs"
| "exec_all r 0 (c # cs) =
     (case matches r (c # cs) None of
        [] \<Rightarrow> exec_all r 0 cs
      | (rest, cap) # _ \<Rightarrow> cap # exec_all r (length (c # cs) - length rest - 1) cs)"

definition image_extension :: regex where
  "image_extension =
     Alt (Lit ''png'') (Alt (Lit ''jpg'') (Alt (Lit ''jpeg'') (Alt (Lit ''gif'')
       (Alt (Lit ''webp'') (Lit ''svg'')))))"

definition quote_chars :: string where
  "quote_chars = [CHR 0x27, CHR 0x22]"

definition white_space :: string where
  "white_space = [CHR '' '', CHR 0x09, CHR 0x0A, CHR 0x0B, CHR 0x0C, CHR 0x0D, CHR 0xA0]"

text \<open>
  The two patterns as the source writes them. Each ends in a quote class
  followed by a literal closing bracket:
  \<^verbatim>\<open>/require\(['"]([^'"]+\.(?:png|jpg|jpeg|gif|webp|svg))['"]]/g\<close> and
  \<^verbatim>\<open>/import\s+[^'"]+\s+from\s+['"]([^'"]+\.(?:png|jpg|jpeg|gif|webp|svg))['"]]/g\<close>.
\<close>

definition asset_path_group :: regex where
  "asset_path_group = Group (Seq (PlusNoneOf quote_chars) (Seq (Lit ''.'') image_extension))"

definition require_pattern :: regex where
  "require_pattern =
     Seq (Lit ''require('') (Seq (OneOf quote_chars) (Seq asset_path_group
       (Seq (OneOf quote_chars) (Lit '']''))))"

definition import_pattern :: regex where
  "import_pattern =
     Seq (Lit ''import'') (Seq (PlusOneOf white_space) (Seq (PlusNoneOf quote_chars)
       (Seq (PlusOneOf white_space) (Seq (Lit ''from'') (Seq (PlusOneOf white_space)
         (Seq (OneOf quote_chars) (Seq asset_path_group
           (Seq (OneOf quote_chars) (Lit '']'')))))))))"

text \<open>\<^verbatim>\<open>Set.add\<close> keeps the first insertion of a value; iteration is in insertion order.\<close>

definition set_add :: "'a list \<Rightarrow> 'a \<Rightarrow> 'a list" where
  "set_add xs x = (if x \<in> set xs then xs else xs @ [x])"

definition bundle_asset_references :: "string \<Rightarrow> string list" where
  "bundle_asset_references bundleContent =
     foldl (\<lambda>bundleAssets pattern.
              foldl (\<lambda>acc m. case m of Some p \<Rightarrow> set_add acc p | None \<Rightarrow> acc)
                bundleAssets (exec_all pattern 0 bundleContent))
       [] [require_pattern, import_pattern]"

text \<open>\<^verbatim>\<open>name.includes(part)\<close>.\<close>

fun str_includes :: "string \<Rightarrow> string \<Rightarrow> bool" where
  "str_includes [] part = (part = [])"
| "str_includes (c # cs) part = (take (length part) (c # cs) = part \<or> str_includes cs part)"

record Verification =
  valid :: bool
  warnings :: "string list"

definition verifyAssetConsistency :: "'w files \<Rightarrow> string \<Rightarrow> string \<Rightarrow> (Verification, 'w) io" where
  "verifyAssetConsistency F bundle assetsDir =
     then_do (f_readFile F bundle) (\<lambda>bundleContent.
     then_do (analyzeMetroAssets F assetsDir) (\<lambda>metroAssets.
       (let bundleAssets = bundle_asset_references bundleContent;
            metroAssetNames = foldl set_add [] (map a_name metroAssets);
            ws = concat (map (\<lambda>assetPath.
                   let assetName = f_basename F assetPath;
                       assetNameWithoutExt = f_parse_name F assetName
                   in if list_ex (\<lambda>name. str_includes name assetNameWithoutExt) metroAssetNames
                      then []
                      else [''Asset referenced in bundle but not found in Metro output: ''
                            @ assetPath]) bundleAssets)
        in return_io \<lparr>valid = (ws = []), warnings = ws\<rparr>)))"

text \<open>A pattern that cannot match a text without a closing bracket.\<close>

definition needs_bracket :: "regex \<Rightarrow> bool" where
  "needs_bracket r = (\<forall>s cap. CHR '']'' \<notin> set s \<longrightarrow> matches r s cap = [])"

section \<open>Configuration (ConfigLoader in utils/config-loader.ts)\<close>

text \<open>
  \<^verbatim>\<open>HotUpdateConfig\<close>, flattened: \<open>project_\<close> and \<open>build_\<close> prefix the fields of
  the two sections; the \<^verbatim>\<open>metadata\<close> section is not read by the functions
  modelled and is left out. \<open>None\<close> is an absent property.
\<close>

record SignatureSection =
  sg_enabled :: bool
  sg_algorithm :: "string option"
  sg_privateKeyPath :: "string option"
  sg_publicKeyPath :: "string option"
  sg_autoGenerate :: "bool option"

record HotUpdateConfig =
  project_path :: string
  project_entryFile :: "string option"
  build_platforms :: "string list"
  build_version :: "string option"
  build_outputPath :: string
  build_bundleName :: "string option"
  build_sourcemap :: "bool option"
  build_minify :: "bool option"
  cfg_signature :: "SignatureSection option"

text \<open>
  What is read of a \<^verbatim>\<open>package.json\<close>: the names with a truthy entry in
  \<^verbatim>\<open>{...dependencies, ...devDependencies}\<close>, and the \<^verbatim>\<open>version\<close>.
\<close>

record PackageJson =
  pj_dependencies :: "string list"
  pj_version :: "string option"

text \<open>
  The environment: \<^verbatim>\<open>path.resolve\<close>, \<^verbatim>\<open>path.join\<close>, \<^verbatim>\<open>fs.pathExists\<close>,
  \<^verbatim>\<open>fs.readJSON\<close> of a \<^verbatim>\<open>package.json\<close> (\<open>Inl message\<close> when it throws) and
  \<^verbatim>\<open>semver.valid\<close> (whether it returns a version).
\<close>

record config_env =
  c_resolve :: "string \<Rightarrow> string"
  c_join :: "string \<Rightarrow> string \<Rightarrow> string"
  c_pathExists :: "string \<Rightarrow> bool"
  c_readJSON :: "string \<Rightarrow> string + PackageJson"
  semver_valid :: "string \<Rightarrow> bool"

definition warning_sign :: string where
  "warning_sign = [CHR 0xE2, CHR 0x9A, CHR 0xA0, CHR 0xEF, CHR 0xB8, CHR 0x8F]"

text \<open>
  \<^verbatim>\<open>validateConfig(config)\<close>, section by section as the source comments
  them. The result is the message of the \<^verbatim>\<open>Error\<close> thrown, or the list of
  warnings printed with \<^verbatim>\<open>console.warn\<close>.
\<close>

definition validate_project :: "config_env \<Rightarrow> HotUpdateConfig \<Rightarrow> string + unit" where
  "validate_project E config =
     (let projectPath = c_resolve E (project_path config)
      in if \<not> c_pathExists E projectPath then
           Inl (''Project path does not exist: '' @ projectPath)
         else
           (let packageJsonPath = c_join E projectPath ''package.json''
            in if c_pathExists E packageJsonPath then
                 (case c_readJSON E packageJsonPath of
                    Inl e \<Rightarrow> Inl e
                  | Inr packageJson \<Rightarrow>
                      if ''react-native'' \<notin> set (pj_dependencies packageJson)
                         \<and> ''@react-native-community/cli'' \<notin> set (pj_dependencies packageJson)
                      then Inl (''Not a React Native project: '' @ projectPath)
                      else Inr ())
               else Inl (''package.json not found in project: '' @ projectPath)))"

definition validPlatforms :: "string list" where
  "validPlatforms = [''ios'', ''android'']"

fun validate_platforms :: "string list \<Rightarrow> string + unit" where
  "validate_platforms [] = Inr ()"
| "validate_platforms (p # ps) =
     (if p \<notin> set validPlatforms then
        Inl (''Invalid platform: '' @ p @ ''. Valid platforms: ios, android'')
      else validate_platforms ps)"

definition validate_version :: "config_env \<Rightarrow> HotUpdateConfig \<Rightarrow> string + unit" where
  "validate_version E config =
     (case build_version config of
        Some v \<Rightarrow>
          if v \<noteq> [] \<and> \<not> semver_valid E v then
            Inl (''Invalid version format: '' @ v @ ''. Use semantic versioning (e.g., 1.0.0)'')
          else Inr ()
      | None \<Rightarrow> Inr ())"

definition validAlgorithms :: "string list" where
  "validAlgorithms = [''RSA-SHA256'', ''ECDSA-SHA256'']"

definition truthy_string :: "string option \<Rightarrow> bool" where
  "truthy_string s = (s \<noteq> None \<and> s \<noteq> Some [])"

definition validate_signature :: "config_env \<Rightarrow> HotUpdateConfig \<Rightarrow> string + string list" where
  "validate_signature E config =
     (case cfg_signature config of
        None \<Rightarrow> Inr []
      | Some sg \<Rightarrow>
          if \<not> sg_enabled sg then Inr []
          else if truthy_string (sg_algorithm sg) \<and> the (sg_algorithm sg) \<notin> set validAlgorithms then
            Inl (''Invalid signature algorithm: '' @ the (sg_algorithm sg)
                 @ ''. Valid algorithms: RSA-SHA256, ECDSA-SHA256'')
          else if sg_autoGenerate sg \<noteq> Some True \<and> truthy_string (sg_privateKeyPath sg) then
            (let keyPath = c_resolve E (the (sg_privateKeyPath sg))
             in if \<not> c_pathExists E keyPath then
                  Inr [warning_sign @ ''  Private key not found: '' @ keyPath
                       @ ''. Will be auto-generated.'']
                else Inr [])
          else Inr [])"

definition validateConfig :: "config_env \<Rightarrow> HotUpdateConfig \<Rightarrow> string + string list" where
  "validateConfig E config =
     (case validate_project E config of
        Inl e \<Rightarrow> Inl e
      | Inr _ \<Rightarrow>
     (case validate_platforms (build_platforms config) of
        Inl e \<Rightarrow> Inl e
      | Inr _ \<Rightarrow>
     (case validate_version E config of
        Inl e \<Rightarrow> Inl e
      | Inr _ \<Rightarrow> validate_signature E config)))"

text \<open>
  The \<^verbatim>\<open>signature\<close> section of the \<^verbatim>\<open>BuildConfig\<close> that \<^verbatim>\<open>toBuildConfig\<close>
  returns.
\<close>

record SignaturePolicy =
  enabled :: bool
  sp_algorithm :: string
  sp_privateKeyPath :: "string option"
  sp_publicKeyPath :: "string option"
  autoGenerate :: bool

text \<open>
  \<^verbatim>\<open>toBuildConfig(config)\<close>: the build configuration and its signature section.
\<close>

definition toBuildConfig ::
  "config_env \<Rightarrow> HotUpdateConfig \<Rightarrow> string + (BuildConfig \<times> SignaturePolicy option)" where
  "toBuildConfig E config =
     (case (if truthy_string (build_version config) then Inr (the (build_version config))
            else (let packageJsonPath = c_join E (project_path config) ''package.json''
                  in if c_pathExists E packageJsonPath then
                       (case c_readJSON E packageJsonPath of
                          Inl e \<Rightarrow> Inl e
                        | Inr packageJson \<Rightarrow>
                            Inr (if truthy_string (pj_version packageJson)
                                 then the (pj_version packageJson) else ''1.0.0''))
                     else Inr ''1.0.0'')) of
        Inl e \<Rightarrow> Inl e
      | Inr v \<Rightarrow>
          Inr (\<lparr>platforms = build_platforms config,
                version = v,
                projectPath = c_resolve E (project_path config),
                outputPath = c_resolve E (build_outputPath config),
                bundleName = build_bundleName config,
                sourcemap = build_sourcemap config,
                minify = build_minify config\<rparr>,
               (case cfg_signature config of
                  None \<Rightarrow> None
                | Some sg \<Rightarrow>
                    if sg_enabled sg then
                      Some \<lparr>enabled = True,
                            sp_algorithm = (if truthy_string (sg_algorithm sg)
                                            then the (sg_algorithm sg) else ''RSA-SHA256''),
                            sp_privateKeyPath = (if truthy_string (sg_privateKeyPath sg)
                                                 then Some (c_resolve E (the (sg_privateKeyPath sg)))
                                                 else None),
                            sp_publicKeyPath = (if truthy_string (sg_publicKeyPath sg)
                                                then Some (c_resolve E (the (sg_publicKeyPath sg)))
                                                else None),
                            autoGenerate = (case sg_autoGenerate sg of None \<Rightarrow> True | Some b \<Rightarrow> b)\<rparr>
                    else None)))"


text \<open>What a build signs with: the key file it was given, or a fresh key pair.\<close>

datatype key_material = ExistingKey string | GeneratedKeyPair

text \<open>
  Modelled from the spec: the choice of key material by the builder that signs.
  The builder that receives the signature section (the two-argument
  \<^verbatim>\<open>HotUpdateBuilder\<close> that \<^verbatim>\<open>index.ts\<close> constructs) is not among the
  sources; the one present takes the build configuration alone and does not
  sign. The specification has a missing private key "force auto-generation":
  the key file is used when it exists, and a key pair is generated otherwise,
  whatever the \<^verbatim>\<open>autoGenerate\<close> flag says.
\<close>

definition build_key_material :: "config_env \<Rightarrow> SignaturePolicy \<Rightarrow> key_material" where
  "build_key_material E sp =
     (case sp_privateKeyPath sp of
        Some keyPath \<Rightarrow> if c_pathExists E keyPath then ExistingKey keyPath else GeneratedKeyPair
      | None \<Rightarrow> GeneratedKeyPair)"

section \<open>Test doubles\<close>

text \<open>A package of a given bundle size and asset count.\<close>

definition test_package :: "nat \<Rightarrow> nat \<Rightarrow> unit PackageInfo" where
  "test_package bytes assets = \<lparr>pkg_platform = ''android'', pkg_version = ''1.0.0'',
     pkg_timestamp = ''2025-01-01'', bundleSize = bytes, assetCount = assets,
     pkg_zipPath = ''out/android-1.0.0.zip'', pkg_manifest = ()\<rparr>"

text \<open>
  A manifest with the members \<^verbatim>\<open>generateHotUpdateManifest\<close> writes, for one
  asset; the asset's name and hash and the builder's name are parameters.
\<close>

definition built_manifest :: "string \<Rightarrow> string \<Rightarrow> string \<Rightarrow> nat json" where
  "built_manifest assetName assetHash builder =
     JObj [(''version'', JStr ''1.0.0''),
           (''platform'', JStr ''android''),
           (''bundleUrl'', JStr ''bundles/index.android.bundle''),
           (''bundleSize'', JNum 120),
           (''bundleHash'', JStr ''9f86d081''),
           (''assets'', JArr [JObj [(''name'', JStr assetName), (''type'', JStr ''png''),
                                    (''url'', JStr (''drawable-mdpi/'' @ assetName)),
                                    (''hash'', JStr assetHash), (''size'', JNum 0)]]),
           (''timestamp'', JNum 1700),
           (''minAppVersion'', JStr ''1.0.0''),
           (''metadata'', JObj [(''buildTime'', JStr ''2025-01-01T00:00:00.000Z''),
                                (''builder'', JStr builder),
                                (''sourcemap'', JBool False), (''minified'', JBool True)])]"

text \<open>
  A small deterministic stand-in, used to run the functions above on concrete
  inputs: one manifest file, one key file, a signature that names the key and
  the length of the data, and the identity as base64.
\<close>

definition test_node :: "(nat, (string \<times> nat json) list) node" where
  "test_node = \<lparr>
     crypto_sign = (\<lambda>h data key. if h = Some ''SHA256'' then Inr (''sig-'' @ key @ ''-'' @ decimal (length data))
                                 else Inl ''Invalid digest''),
     crypto_public = (\<lambda>key. Inr (''pub-'' @ key)),
     crypto_verify = (\<lambda>h data key sig.
        case key of
          JStr p \<Rightarrow> if h = Some ''SHA256'' then Inr (sig = ''sig-'' @ drop 4 p @ ''-'' @ decimal (length data))
                    else Inl ''Invalid digest''
        | _ \<Rightarrow> Inl ''Invalid key''),
     base64 = (\<lambda>bytes. bytes),
     from_base64 = (\<lambda>s. s),
     Date_now = 1700000000000,
     Number_toString = decimal,
     Number_truthy = (\<lambda>n. n \<noteq> 0),
     fs_readFile = (\<lambda>path fs. if path = ''manifest.json'' then Inr ''M''
                              else if path = ''key.pem'' then Inr ''k1''
                              else Inl (''ENOENT: '' @ path)),
     fs_writeJSON = (\<lambda>path doc fs. Inr ((path, doc) # fs)),
     JSON_parse = (\<lambda>s. if s = ''M'' then Inr (JObj [(''version'', JStr ''1.0.0''), (''bundleSize'', JNum 120)])
                         else Inl ''Unexpected token'') \<rparr>"

definition rsa_config :: SignatureConfig where
  "rsa_config = \<lparr>algorithm = ''RSA-SHA256'', privateKeyPath = None, publicKeyPath = None, keySize = Some 2048\<rparr>"

text \<open>
  Stages for a run with two platforms: the bundler fails for \<^verbatim>\<open>ios\<close> and
  succeeds for \<^verbatim>\<open>android\<close>; the world is the list of files written. In
  \<open>readonly_stages\<close> no directory can be created.
\<close>

definition test_stages :: "(string, string list) stages" where
  "test_stages = \<lparr>
     ensureDir = (\<lambda>dir. return_io ()),
     stat_size = (\<lambda>path. return_io 2048),
     path_join = (\<lambda>a b. a @ ''/'' @ b),
     findEntryFile = (\<lambda>w. ''index.js''),
     buildBundle = (\<lambda>c. if bc_platform c = ''ios''
                          then throw_io ''Bundle build failed with code 1''
                          else (\<lambda>w. (Inr (), w @ [bc_bundlePath c]))),
     validateBundle = (\<lambda>path w. (Inr (path \<in> set w), w)),
     copyAdditionalAssets = (\<lambda>dir. return_io []),
     analyzeMetroAssets_stage = (\<lambda>dir. return_io []),
     verifyAssetConsistency_stage = (\<lambda>bundle dir. return_io []),
     generateHotUpdateManifest = (\<lambda>p bundle assets dir w. (Inr (), w @ [dir @ ''/manifest.json''])),
     createZipFile = (\<lambda>p dir w. (Inr (dir @ ''.zip''), w @ [dir @ ''.zip''])) \<rparr>"

definition test_config :: BuildConfig where
  "test_config = \<lparr>platforms = [''ios'', ''android''], version = ''1.0.0'', projectPath = ''app'',
     outputPath = ''out'', bundleName = None, sourcemap = None, minify = None\<rparr>"

definition readonly_stages :: "(string, string list) stages" where
  "readonly_stages = test_stages\<lparr>ensureDir := (\<lambda>dir. throw_io (''EACCES: permission denied, mkdir '' @ dir))\<rparr>"

text \<open>Stages in which the bundle directory of \<^verbatim>\<open>ios\<close> cannot be created.\<close>

definition locked_stages :: "(string, string list) stages" where
  "locked_stages = test_stages\<lparr>ensureDir := (\<lambda>dir.
     if dir = ''out/ios/bundles'' then throw_io (''EACCES: permission denied, mkdir '' @ dir)
     else return_io ())\<rparr>"

text \<open>
  A file system with one Metro asset (\<^verbatim>\<open>drawable-mdpi/logo.png\<close>), one
  supplementary asset whose content is the three bytes \<^verbatim>\<open>abc\<close>, streamed in
  two chunks, and a bundle that requires an image the catalog does not have.
\<close>

definition test_files :: "unit files" where
  "test_files = \<lparr>
     f_join = (\<lambda>a b. a @ ''/'' @ b),
     f_basename = (\<lambda>p. rev (takeWhile (\<lambda>c. c \<noteq> CHR ''/'') (rev p))),
     f_dirname = (\<lambda>p. rev (drop 1 (dropWhile (\<lambda>c. c \<noteq> CHR ''/'') (rev p)))),
     f_extname = (\<lambda>p. if CHR ''.'' \<in> set p then CHR ''.'' # rev (takeWhile (\<lambda>c. c \<noteq> CHR ''.'') (rev p)) else []),
     f_parse_name = (\<lambda>p. if CHR ''.'' \<in> set p then rev (drop 1 (dropWhile (\<lambda>c. c \<noteq> CHR ''.'') (rev p))) else p),
     f_pathExists = (\<lambda>p. return_io (p = ''out/android/assets/drawable-mdpi'')),
     f_readdir = (\<lambda>p. if p = ''out/android/assets/drawable-mdpi'' then return_io [''logo.png'']
                        else throw_io (''ENOENT: no such file or directory, scandir '' @ p)),
     f_stat = (\<lambda>p. return_io \<lparr>isFile = True, mtime = 1700000000000, st_size = 3\<rparr>),
     f_readFile = (\<lambda>p. return_io ''var icon=require('./img/missing.png');''),
     f_ensureDir = (\<lambda>p. return_io ()),
     f_copy = (\<lambda>a b. return_io ()),
     f_glob = (\<lambda>pattern ignore. return_io [''assets/logo.png'']),
     f_readStream = (\<lambda>p. return_io [''ab'', ''c'']),
     f_sha256_hex = (\<lambda>bytes. if bytes = ''abc''
        then ''ba7816bf8f01cfea414140de5dae2223b00361a396177a9cb410ff61f20015ad''
        else ''e3b0c44298fc1c149afbf4c8996fb92427ae41e4649b934ca495991b7852b855'') \<rparr>"

text \<open>
  An environment with a React Native project at \<^verbatim>\<open>/work/app\<close> and no key
  file, and a configuration that enables signing with \<^verbatim>\<open>autoGenerate: false\<close>
  and a private key path that does not exist.
\<close>

definition test_env :: config_env where
  "test_env = \<lparr>
     c_resolve = (\<lambda>p. ''/work/'' @ p),
     c_join = (\<lambda>a b. a @ ''/'' @ b),
     c_pathExists = (\<lambda>p. p \<in> set [''/work/app'', ''/work/app/package.json'', ''app/package.json'']),
     c_readJSON = (\<lambda>p. Inr \<lparr>pj_dependencies = [''react'', ''react-native''],
                              pj_version = Some ''2.0.5''\<rparr>),
     semver_valid = (\<lambda>v. v \<in> set [''1.0.0'', ''2.0.5'']) \<rparr>"

definition missing_key_config :: HotUpdateConfig where
  "missing_key_config = \<lparr>
     project_path = ''app'', project_entryFile = None,
     build_platforms = [''android''], build_version = Some ''2.0.5'',
     build_outputPath = ''out'', build_bundleName = Some ''index'',
     build_sourcemap = Some False, build_minify = Some True,
     cfg_signature = Some \<lparr>sg_enabled = True, sg_algorithm = Some ''RSA-SHA256'',
                            sg_privateKeyPath = Some ''nonexistent/key.pem'',
                            sg_publicKeyPath = None, sg_autoGenerate = Some False\<rparr> \<rparr>"

section \<open>Theorems\<close>

subsection \<open>Package index totals\<close>

lemma bit_length_bounds: "2 ^ k \<le> n \<Longrightarrow> n < 2 ^ Suc k \<Longrightarrow> bit_length n = Suc k"
proof (induction k arbitrary: n)
  case 0
  then have "n = 1" by simp
  then show ?case by (simp add: bit_length.simps)
next
  case (Suc k)
  then have "2 ^ k \<le> n div 2" "n div 2 < 2 ^ Suc k" by auto
  then have "bit_length (n div 2) = Suc k" by (rule Suc.IH)
  moreover have "n \<noteq> 0" using Suc.prems by auto
  ultimately show ?case by (subst bit_length.simps) simp
qed

lemma round_double_exact: "n \<le> 2 ^ 53 \<Longrightarrow> round_double n = Finite n"
proof (cases "n < 2 ^ 53")
  case True
  then show ?thesis by (simp add: round_double_def)
next
  case False
  assume "n \<le> 2 ^ 53"
  with False have n: "n = 2 ^ 53" by simp
  have b: "bit_length (2 ^ 53) = 54"
    using bit_length_bounds [of 53 "2 ^ 53"] by simp
  show ?thesis unfolding n round_double_def b by (simp add: Let_def)
qed

lemma reduce_sum_exact_aux:
  "a + sum_list (map f ps) \<le> 2 ^ 53 \<Longrightarrow>
   foldl (\<lambda>sum p. add_number sum (f p)) (Finite a) ps = Finite (a + sum_list (map f ps))"
proof (induction ps arbitrary: a)
  case Nil
  then show ?case by simp
next
  case (Cons p ps)
  have "a + f p \<le> 2 ^ 53" using Cons.prems by simp
  then have "round_double (a + f p) = Finite (a + f p)" by (rule round_double_exact)
  then show ?case using Cons.IH [of "a + f p"] Cons.prems by (simp add: add.assoc)
qed

lemma reduce_sum_exact:
  "sum_list (map f ps) \<le> 2 ^ 53 \<Longrightarrow> reduce_sum f ps = Finite (sum_list (map f ps))"
  using reduce_sum_exact_aux [of 0 f ps] by (simp add: reduce_sum_def)

lemma round_2_53_plus_1: "round_double 9007199254740993 = Finite 9007199254740992"
proof -
  have b: "bit_length 9007199254740993 = 54"
    using bit_length_bounds [of 53 9007199254740993] by simp
  show ?thesis unfolding round_double_def b by (simp add: Let_def)
qed

lemma add_at_2_53: "add_number (Finite 9007199254740992) 1 = Finite 9007199254740992"
proof -
  have "(9007199254740992::nat) + 1 = 9007199254740993" by simp
  then show ?thesis by (simp only: add_number.simps round_2_53_plus_1)
qed

lemma generatePackageManifest_totalSize:
  "totalSize (summary (snd (generatePackageManifest join basename mb checksum now pkgs outputDir)))
     = reduce_sum bundleSize pkgs"
  by (simp add: generatePackageManifest_def)

text \<open>
  C9, as amended. For every list of input packages whose \<open>bundleSize\<close> values
  and whose \<open>assetCount\<close> values each add up to at most \<open>2^53\<close>, the index that
  \<^verbatim>\<open>generatePackageManifest\<close> writes has \<open>totalPackages\<close> equal to the number
  of packages, \<open>summary.totalSize\<close> equal to the sum of the \<open>bundleSize\<close> values
  and \<open>summary.totalAssets\<close> equal to the sum of the \<open>assetCount\<close> values.
\<close>

theorem generatePackageManifest_totals:
  assumes "sum_list (map bundleSize pkgs) \<le> 2 ^ 53"
    and "sum_list (map assetCount pkgs) \<le> 2 ^ 53"
  shows "totalPackages (snd (generatePackageManifest join basename mb checksum now pkgs outputDir))
           = length pkgs
    \<and> totalSize (summary (snd (generatePackageManifest join basename mb checksum now pkgs outputDir)))
           = Finite (sum_list (map bundleSize pkgs))
    \<and> totalAssets (summary (snd (generatePackageManifest join basename mb checksum now pkgs outputDir)))
           = Finite (sum_list (map assetCount pkgs))"
  using reduce_sum_exact [OF assms(1)] reduce_sum_exact [OF assms(2)]
  by (simp add: generatePackageManifest_def)

theorem generatePackageManifest_totals_witness:
  "sum_list (map bundleSize [test_package 120 3, test_package 80 2]) \<le> 2 ^ 53
   \<and> sum_list (map assetCount [test_package 120 3, test_package 80 2]) \<le> 2 ^ 53
   \<and> totalPackages (snd (generatePackageManifest (\<lambda>a b. a @ ''/'' @ b) id decimal (\<lambda>m. ''unknown'')
         ''2025-01-01T00:00:00.000Z'' [test_package 120 3, test_package 80 2] ''out'')) = 2
   \<and> totalSize (summary (snd (generatePackageManifest (\<lambda>a b. a @ ''/'' @ b) id decimal (\<lambda>m. ''unknown'')
         ''2025-01-01T00:00:00.000Z'' [test_package 120 3, test_package 80 2] ''out''))) = Finite 200
   \<and> totalAssets (summary (snd (generatePackageManifest (\<lambda>a b. a @ ''/'' @ b) id decimal (\<lambda>m. ''unknown'')
         ''2025-01-01T00:00:00.000Z'' [test_package 120 3, test_package 80 2] ''out''))) = Finite 5"
proof -
  have a: "sum_list (map bundleSize [test_package 120 3, test_package 80 2]) \<le> 2 ^ 53"
    and b: "sum_list (map assetCount [test_package 120 3, test_package 80 2]) \<le> 2 ^ 53"
    by (simp_all add: test_package_def)
  from generatePackageManifest_totals [OF a b, of "\<lambda>a b. a @ ''/'' @ b" id decimal
      "\<lambda>m. ''unknown''" "''2025-01-01T00:00:00.000Z''" "''out''"] a b
  show ?thesis by (simp add: test_package_def)
qed

text \<open>
  C9 as stated does not hold for every list: the additions are additions of
  doubles. With bundle sizes \<open>2^53\<close>, \<open>1\<close> and \<open>1\<close> each addition of \<open>1\<close> rounds
  back to \<open>2^53\<close>, and the total written is \<open>2^53\<close>, not the sum \<open>2^53 + 2\<close>.
\<close>

theorem generatePackageManifest_totals_counterexample:
  "sum_list (map bundleSize [test_package 9007199254740992 0, test_package 1 0, test_package 1 0])
     = 9007199254740994
   \<and> totalSize (summary (snd (generatePackageManifest (\<lambda>a b. a @ ''/'' @ b) id decimal
         (\<lambda>m. ''unknown'') ''2025-01-01T00:00:00.000Z''
         [test_package 9007199254740992 0, test_package 1 0, test_package 1 0] ''out'')))
     = Finite 9007199254740992"
proof (rule conjI)
  show "sum_list (map bundleSize
          [test_package 9007199254740992 0, test_package 1 0, test_package 1 0])
        = 9007199254740994"
    by (simp add: test_package_def)
next
  have b: "\<And>a c. bundleSize (test_package a c) = a"
    by (simp add: test_package_def)
  have z: "add_number (Finite 0) 9007199254740992 = Finite 9007199254740992"
    using round_double_exact [of 9007199254740992] by simp
  have r: "reduce_sum bundleSize
             [test_package 9007199254740992 0, test_package 1 0, test_package 1 0]
           = Finite 9007199254740992"
    by (simp only: reduce_sum_def foldl.simps b z add_at_2_53)
  show "totalSize (summary (snd (generatePackageManifest (\<lambda>a b. a @ ''/'' @ b) id decimal
          (\<lambda>m. ''unknown'') ''2025-01-01T00:00:00.000Z''
          [test_package 9007199254740992 0, test_package 1 0, test_package 1 0] ''out'')))
        = Finite 9007199254740992"
    by (simp only: generatePackageManifest_totalSize r)
qed

subsection \<open>Curve selection\<close>

text \<open>
  C10. For an ECDSA-SHA256 configuration the curve handed to the generator depends
  on \<open>keySize\<close> alone: 256 gives prime256v1, 384 gives secp384r1, and every other
  value gives secp521r1 without any error; an absent \<open>keySize\<close> is the
  constructor's default 2048 and so gives secp521r1 too.
\<close>

theorem ecdsa_curve_from_keySize:
  "requested_curve (DigitalSignature (Some \<lparr>algorithm = ''ECDSA-SHA256'', privateKeyPath = pk,
       publicKeyPath = pb, keySize = ks\<rparr>))
     = Inr (if ks = Some 256 then ''prime256v1''
            else if ks = Some 384 then ''secp384r1''
            else ''secp521r1'')
   \<and> keySize (DigitalSignature (Some \<lparr>algorithm = ''ECDSA-SHA256'', privateKeyPath = pk,
       publicKeyPath = pb, keySize = None\<rparr>)) = Some 2048"
  by (cases ks) (simp_all add: requested_curve_def generateAndSaveKeyPair_def DigitalSignature_def)

subsection \<open>Canonicalization\<close>

lemma PropertyList_aux:
  "distinct K \<Longrightarrow>
   distinct (foldl (\<lambda>K item. if item \<in> set K then K else K @ [item]) K xs) \<and>
   set (foldl (\<lambda>K item. if item \<in> set K then K else K @ [item]) K xs) = set K \<union> set xs"
  by (induction xs arbitrary: K) auto

lemma PropertyList_sorted_aux:
  "sorted (K @ xs) \<Longrightarrow>
   sorted (foldl (\<lambda>K item. if item \<in> set K then K else K @ [item]) K xs)"
proof (induction xs arbitrary: K)
  case Nil
  then show ?case by simp
next
  case (Cons x xs)
  have "sorted ((K @ [x]) @ xs)" using Cons.prems by simp
  moreover have "sorted (K @ xs)" using Cons.prems by (auto simp: sorted_append)
  ultimately show ?case using Cons.IH [of "K @ [x]"] Cons.IH [of K] by simp
qed

lemma PropertyList_distinct: "distinct (PropertyList xs)"
  and PropertyList_set: "set (PropertyList xs) = set xs"
  using PropertyList_aux [of "[]" xs] by (simp_all add: PropertyList_def)

lemma PropertyList_sorted: "sorted xs \<Longrightarrow> sorted (PropertyList xs)"
  using PropertyList_sorted_aux [of "[]" xs] by (simp add: PropertyList_def)

lemma PropertyList_sort_cong:
  assumes "set xs = set ys"
  shows "PropertyList (sort xs) = PropertyList (sort ys)"
proof -
  have "sorted (PropertyList (sort xs))" "sorted (PropertyList (sort ys))"
    by (simp_all add: PropertyList_sorted)
  moreover have "set (PropertyList (sort xs)) = set (PropertyList (sort ys))"
    using assms by (simp add: PropertyList_set)
  ultimately show ?thesis
    using PropertyList_distinct sorted_distinct_set_unique by blast
qed

lemma same_fields_map_of:
  assumes "distinct (map fst a)" "distinct (map fst b)" "set (map fst a) = set (map fst b)"
  shows "(map_of a P = None \<longleftrightarrow> map_of b P = None)"
  using assms by (metis map_of_eq_None_iff set_map)

lemma same_fields_serialize:
  "same_fields x y \<Longrightarrow> SerializeJSONProperty num K x = SerializeJSONProperty num K y"
proof (induction x y rule: same_fields.induct)
  case (1 a b)
  have d: "distinct (map fst a)" "distinct (map fst b)" "set (map fst a) = set (map fst b)"
    using "1.prems" by simp_all
  have "(case map_of a P of
          Some v \<Rightarrow> [QuoteJSONString P @ '':'' @ SerializeJSONProperty num K v]
        | None \<Rightarrow> (if P = ''__proto__''
                   then [QuoteJSONString P @ '':{'' @ QuoteJSONString P @ '':null}'']
                   else []))
      = (case map_of b P of
          Some v \<Rightarrow> [QuoteJSONString P @ '':'' @ SerializeJSONProperty num K v]
        | None \<Rightarrow> (if P = ''__proto__''
                   then [QuoteJSONString P @ '':{'' @ QuoteJSONString P @ '':null}'']
                   else []))" for P
  proof (cases "map_of a P")
    case None
    then have "map_of b P = None" using same_fields_map_of [OF d] by simp
    with None show ?thesis by simp
  next
    case (Some v)
    then obtain w where w: "map_of b P = Some w"
      using same_fields_map_of [OF d, of P] by auto
    have "(P, v) \<in> set a" "(P, w) \<in> set b"
      using Some w by (auto dest: map_of_SomeD)
    moreover from this have "same_fields v w" using "1.prems" by auto
    ultimately have "SerializeJSONProperty num K v = SerializeJSONProperty num K w"
      using "1.IH" by blast
    with Some w show ?thesis by simp
  qed
  then show ?case by simp
next
  case (2 xs ys)
  from "2.prems" have "list_all2 same_fields xs ys" by simp
  then have "map (SerializeJSONProperty num K) xs = map (SerializeJSONProperty num K) ys"
    using "2.IH"
  proof (induction xs ys rule: list_all2_induct)
    case Nil
    then show ?case by simp
  next
    case (Cons x xs y ys)
    then show ?case by simp
  qed
  then show ?case by simp
qed simp_all

lemma same_fields_delete:
  "same_fields x y \<Longrightarrow> same_fields (delete_property name x) (delete_property name y)"
proof (cases x; cases y)
  fix a b assume xy: "x = JObj a" "y = JObj b" and sf: "same_fields x y"
  have "map fst (filter (\<lambda>(k, v). k \<noteq> name) kvs) = filter (\<lambda>k. k \<noteq> name) (map fst kvs)"
    for kvs :: "(string \<times> 'a json) list"
    by (induction kvs) auto
  then show "same_fields (delete_property name x) (delete_property name y)"
    using sf xy by (auto simp: distinct_map_filter)
qed simp_all

lemma same_fields_keys:
  "same_fields x y \<Longrightarrow> PropertyList (canonical_keys x) = PropertyList (canonical_keys y)"
proof (cases x; cases y)
  fix a b assume "x = JObj a" "y = JObj b" "same_fields x y"
  then show ?thesis by (auto simp: canonical_keys_def intro!: PropertyList_sort_cong)
next
  fix a b assume "x = JArr a" "y = JArr b" "same_fields x y"
  then show ?thesis by (auto simp: canonical_keys_def dest: list_all2_lengthD)
qed (simp_all add: canonical_keys_def)

lemma same_fields_strip: "same_fields x y \<Longrightarrow> same_fields (strip_signature x) (strip_signature y)"
  by (simp add: strip_signature_def same_fields_delete)

lemma same_fields_null: "same_fields x y \<Longrightarrow> (x = JNull \<longleftrightarrow> y = JNull)"
  by (cases x; cases y) simp_all

lemma canonical_keys_sorted:
  "sorted (PropertyList (canonical_keys m))" "distinct (PropertyList (canonical_keys m))"
  by (simp_all add: canonical_keys_def PropertyList_sorted PropertyList_distinct)

text \<open>
  Two manifest objects with the same field values at every depth, whatever the
  order of their properties, have the same canonical string (the signing input
  of \<^verbatim>\<open>signManifest\<close> and the verification input of \<^verbatim>\<open>verifyManifest\<close>,
  signature fields removed).
\<close>

lemma canonicalManifest_order_independent:
  assumes "same_fields (JObj m1) (JObj m2)"
  shows "canonicalManifest num (JObj m1) = canonicalManifest num (JObj m2)
         \<and> (\<exists>bytes. canonicalManifest num (JObj m1) = Inr bytes)"
  using same_fields_keys [OF same_fields_strip [OF assms]]
    same_fields_serialize [OF same_fields_strip [OF assms]]
  by (simp add: canonicalManifest_def JSON_stringify_def Let_def)

lemma canonicalManifest_order_independent_example:
  \<open>same_fields
     (JObj [(''version'', JStr ''1.0.0''), (''signature'', JStr ''RSA-SHA256:AAAA''),
            (''assets'', JArr [JObj [(''name'', JStr ''a.png''), (''version'', JNum (3::nat))]]),
            (''bundleSize'', JNum 120)])
     (JObj [(''bundleSize'', JNum 120),
            (''assets'', JArr [JObj [(''version'', JNum 3), (''name'', JStr ''a.png'')]]),
            (''version'', JStr ''1.0.0''), (''signature'', JStr ''RSA-SHA256:AAAA'')])
   \<and> canonicalManifest decimal
       (JObj [(''version'', JStr ''1.0.0''), (''signature'', JStr ''RSA-SHA256:AAAA''),
              (''assets'', JArr [JObj [(''name'', JStr ''a.png''), (''version'', JNum 3)]]),
              (''bundleSize'', JNum 120)])
     = canonicalManifest decimal
       (JObj [(''bundleSize'', JNum 120),
              (''assets'', JArr [JObj [(''version'', JNum 3), (''name'', JStr ''a.png'')]]),
              (''version'', JStr ''1.0.0''), (''signature'', JStr ''RSA-SHA256:AAAA'')])\<close>
proof -
  have h: \<open>same_fields
     (JObj [(''version'', JStr ''1.0.0''), (''signature'', JStr ''RSA-SHA256:AAAA''),
            (''assets'', JArr [JObj [(''name'', JStr ''a.png''), (''version'', JNum (3::nat))]]),
            (''bundleSize'', JNum 120)])
     (JObj [(''bundleSize'', JNum 120),
            (''assets'', JArr [JObj [(''version'', JNum 3), (''name'', JStr ''a.png'')]]),
            (''version'', JStr ''1.0.0''), (''signature'', JStr ''RSA-SHA256:AAAA'')])\<close>
    by code_simp
  from canonicalManifest_order_independent [OF h, of decimal] h show ?thesis
    by blast
qed

text \<open>
  The sorted names are the top-level ones, and the serializer uses them as the
  list of members to write at every depth: an object none of whose member names
  is in the list is written as \<^verbatim>\<open>{}\<close>.
\<close>

lemma serialize_object_without_listed_names:
  assumes "set K \<inter> fst ` set kvs = {}" and "''__proto__'' \<notin> set K"
  shows "SerializeJSONProperty num K (JObj kvs) = ''{}''"
proof -
  have "map_of kvs P = None \<and> P \<noteq> ''__proto__''" if "P \<in> set K" for P
    using that assms by (auto simp: map_of_eq_None_iff)
  then have c: "concat (map (\<lambda>P.
        case map_of kvs P of
          Some v \<Rightarrow> [QuoteJSONString P @ '':'' @ SerializeJSONProperty num K v]
        | None \<Rightarrow> (if P = ''__proto__''
                   then [QuoteJSONString P @ '':{'' @ QuoteJSONString P @ '':null}'']
                   else [])) K) = []"
    by (induction K) auto
  show ?thesis unfolding SerializeJSONProperty.simps c by simp
qed


lemma canonicalManifest_nested_members:
  \<open>canonicalManifest decimal
     (JObj [(''version'', JStr ''1.0.0''), (''signature'', JStr ''RSA-SHA256:AAAA''),
            (''assets'', JArr [JObj [(''name'', JStr ''a.png''), (''version'', JNum 3)]]),
            (''metadata'', JObj [(''builder'', JStr ''nitro-hotupdate-cli'')]),
            (''bundleSize'', JNum 120)])
   = Inr ''{"assets":[{"version":3}],"bundleSize":120,"metadata":{},"version":"1.0.0"}''\<close>
  by code_simp

text \<open>
  C1 does not hold of the code. The members of nested objects are not written
  in sorted order; they are not written. For a manifest as the builder
  generates it the canonical string has \<^verbatim>\<open>"assets":[{}]\<close> and
  \<^verbatim>\<open>"metadata":{}\<close>, so two manifests that differ in an asset's name, address
  and hash and in the metadata have the same canonical string, and with it the
  same signature.
\<close>

theorem canonicalManifest_drops_nested_members:
  \<open>canonicalManifest decimal (built_manifest ''logo.png'' ''1700000000'' ''nitro-hotupdate-cli'')
     = Inr ''{"assets":[{}],"bundleHash":"9f86d081","bundleSize":120,"bundleUrl":"bundles/index.android.bundle","metadata":{},"minAppVersion":"1.0.0","platform":"android","timestamp":1700,"version":"1.0.0"}''
   \<and> canonicalManifest decimal (built_manifest ''evil.png'' ''6666'' ''someone-else'')
     = Inr ''{"assets":[{}],"bundleHash":"9f86d081","bundleSize":120,"bundleUrl":"bundles/index.android.bundle","metadata":{},"minAppVersion":"1.0.0","platform":"android","timestamp":1700,"version":"1.0.0"}''
   \<and> built_manifest ''logo.png'' ''1700000000'' ''nitro-hotupdate-cli''
       \<noteq> built_manifest ''evil.png'' ''6666'' ''someone-else''\<close>
  by code_simp


subsection \<open>Sign and verify\<close>

lemma split_char_no_sep: "c \<notin> set s \<Longrightarrow> split_char c s = [s]"
  by (induction s) auto

lemma split_char_ne: "split_char c s \<noteq> []"
  by (induction s) (auto split: list.splits)

lemma split_char_first_sep:
  "c \<notin> set a \<Longrightarrow> split_char c (a @ c # b) = a # split_char c b"
  by (induction a) auto

lemma split_limit_pair:
  "CHR '':'' \<notin> set a \<Longrightarrow> CHR '':'' \<notin> set b \<Longrightarrow> split_limit CHR '':'' 2 (a @ CHR '':'' # b) = [a, b]"
  by (simp add: split_limit_def split_char_first_sep split_char_no_sep)

lemma hash_of_rsa: "at_index (split_char CHR ''-'' ''RSA-SHA256'') 1 = Some ''SHA256''"
  by (simp add: at_index_def)

lemma hash_of_ecdsa: "at_index (split_char CHR ''-'' ''ECDSA-SHA256'') 1 = Some ''SHA256''"
  by (simp add: at_index_def)

text \<open>
  C2. Sign/verify round trip. Take a key pair for which the signature primitive
  accepts, under the public key, what it produced under the private key (what
  \<^verbatim>\<open>generateRSAKeyPair\<close> and \<^verbatim>\<open>generateECDSAKeyPair\<close> deliver), and a
  base64 codec that decodes what it encoded into a non-empty string without a
  colon. Then for either algorithm and every data string, in particular every
  canonical manifest, \<^verbatim>\<open>signData\<close> succeeds and \<^verbatim>\<open>verifySignature\<close> of its
  signature string under the public key returns \<open>isValid = True\<close>.
\<close>

theorem sign_verify_round_trip:
  assumes alg: "algorithm config = ''RSA-SHA256'' \<or> algorithm config = ''ECDSA-SHA256''"
    and sg: "crypto_sign N (Some ''SHA256'') data priv = Inr sg"
    and pb: "crypto_public N priv = Inr pub'"
    and ok: "crypto_verify N (Some ''SHA256'') data pub sg = Inr True"
    and b64: "from_base64 N (base64 N sg) = sg" "base64 N sg \<noteq> []" "CHR '':'' \<notin> set (base64 N sg)"
  shows "\<exists>r v. signData N config data priv = Inr r
            \<and> verifySignature N data (JStr (sr_signature r)) pub = Inr v \<and> isValid v"
proof -
  define r where "r = \<lparr>sr_signature = algorithm config @ '':'' @ base64 N sg,
     sr_algorithm = algorithm config, sr_publicKey = pub', sr_timestamp = Date_now N\<rparr>"
  have h: "at_index (split_char CHR ''-'' (algorithm config)) 1 = Some ''SHA256''"
    using alg hash_of_rsa hash_of_ecdsa by auto
  have st: "startsWith (algorithm config) ''RSA'' \<or> startsWith (algorithm config) ''ECDSA''"
    using alg by (auto simp: startsWith_def)
  have s: "signData N config data priv = Inr r"
    using st h sg pb by (auto simp: signData_def try_catch_def r_def Let_def)
  have nc: "CHR '':'' \<notin> set (algorithm config)" "algorithm config \<noteq> []"
    using alg by auto
  have sp: "split_limit CHR '':'' 2 (sr_signature r) = [algorithm config, base64 N sg]"
    using nc b64 by (simp add: r_def split_limit_pair)
  have "verifySignature N data (JStr (sr_signature r)) pub
        = Inr \<lparr>isValid = True, error = None, vr_algorithm = Some (algorithm config),
               vr_timestamp = Some (JNum (Date_now N))\<rparr>"
    using nc b64 h ok by (simp add: verifySignature_def try_catch_def sp at_index_def Let_def)
  with s show ?thesis by simp
qed


theorem sign_verify_round_trip_witness:
  \<open>crypto_sign test_node (Some ''SHA256'') ''{"bundleSize":120,"version":"1.0.0"}'' ''k1''
     = Inr ''sig-k1-36''
   \<and> crypto_verify test_node (Some ''SHA256'') ''{"bundleSize":120,"version":"1.0.0"}''
       (JStr ''pub-k1'') ''sig-k1-36'' = Inr True
   \<and> (\<exists>r v. signData test_node rsa_config ''{"bundleSize":120,"version":"1.0.0"}'' ''k1'' = Inr r
          \<and> verifySignature test_node ''{"bundleSize":120,"version":"1.0.0"}''
                (JStr (sr_signature r)) (JStr ''pub-k1'') = Inr v
          \<and> isValid v)\<close>
proof -
  have a: "algorithm rsa_config = ''RSA-SHA256'' \<or> algorithm rsa_config = ''ECDSA-SHA256''"
    by (simp add: rsa_config_def)
  have sg: \<open>crypto_sign test_node (Some ''SHA256'') ''{"bundleSize":120,"version":"1.0.0"}'' ''k1''
     = Inr ''sig-k1-36''\<close>
    by (simp add: test_node_def digit_char_def)
  have pb: "crypto_public test_node ''k1'' = Inr ''pub-k1''"
    by (simp add: test_node_def)
  have ok: \<open>crypto_verify test_node (Some ''SHA256'') ''{"bundleSize":120,"version":"1.0.0"}''
       (JStr ''pub-k1'') ''sig-k1-36'' = Inr True\<close>
    by (simp add: test_node_def digit_char_def)
  have b: "from_base64 test_node (base64 test_node ''sig-k1-36'') = ''sig-k1-36''"
    "base64 test_node ''sig-k1-36'' \<noteq> []" "CHR '':'' \<notin> set (base64 test_node ''sig-k1-36'')"
    by (simp_all add: test_node_def)
  from sign_verify_round_trip [OF a sg pb ok b] sg ok show ?thesis by blast
qed

subsection \<open>Verification returns a value\<close>

lemma verifySignature_total: "\<exists>r. verifySignature N data sa pub = Inr r"
  by (auto simp: verifySignature_def try_catch_def Let_def split: sum.splits json.splits)

lemma verifyManifest_total: "\<exists>r. verifyManifest N manifestPath keyPath fs = Inr r"
  unfolding verifyManifest_def try_catch_def
  by (cases "fs_readFile N manifestPath fs") (auto split: sum.splits)

lemma verifySignature_no_separator:
  assumes "CHR '':'' \<notin> set s"
  shows "verifySignature N data (JStr s) pub =
         Inr \<lparr>isValid = False, error = Some invalid_format_message,
              vr_algorithm = None, vr_timestamp = None\<rparr>"
  using assms
  by (simp add: verifySignature_def try_catch_def split_limit_def split_char_no_sep at_index_def)

lemma verifySignature_exception:
  assumes "alg \<noteq> []" "sig \<noteq> []" "CHR '':'' \<notin> set alg" "CHR '':'' \<notin> set sig"
    and "crypto_verify N (at_index (split_char CHR ''-'' alg) 1) data pub (from_base64 N sig) = Inl message"
  shows "verifySignature N data (JStr (alg @ '':'' @ sig)) pub =
         Inr \<lparr>isValid = False, error = Some (''Verification failed: '' @ message),
              vr_algorithm = None, vr_timestamp = None\<rparr>"
  using assms
  by (simp add: verifySignature_def try_catch_def split_limit_pair at_index_def Let_def)

lemma verifySignature_valid_only_by_primitive:
  assumes "verifySignature N data sa pub = Inr r" "isValid r"
  shows "error r = None \<and> (\<exists>h sig. crypto_verify N h data pub sig = Inr True)"
  using assms
  by (auto simp: verifySignature_def try_catch_def Let_def split: sum.splits json.splits if_splits)
    blast+

lemma verifySignature_invalid_cases:
  assumes "verifySignature N data sa pub = Inr r" "\<not> isValid r"
  shows "error r = Some invalid_format_message
         \<or> (\<exists>message. error r = Some (''Verification failed: '' @ message))
         \<or> (error r = None \<and> (\<exists>h sig. crypto_verify N h data pub sig = Inr False))"
  using assms
  by (auto simp: verifySignature_def try_catch_def Let_def split: sum.splits json.splits if_splits)

lemma verifyManifest_read_error:
  assumes "fs_readFile N manifestPath fs = Inl message"
  shows "verifyManifest N manifestPath keyPath fs =
         Inr \<lparr>isValid = False, error = Some (''Verification failed: '' @ message),
              vr_algorithm = None, vr_timestamp = None\<rparr>"
  using assms by (simp add: verifyManifest_def try_catch_def)

text \<open>
  C3. \<^verbatim>\<open>verifySignature\<close> and \<^verbatim>\<open>verifyManifest\<close> return a result for every
  input and every behaviour of the library calls: no exception leaves them. A
  signature string without a colon gives \<open>isValid = False\<close> with the
  invalid-format message; an exception of the verification primitive gives
  \<open>isValid = False\<close> with the message \<^verbatim>\<open>Verification failed: ...\<close>; a result
  that is not valid carries one of these two kinds of message unless the
  primitive itself answered \<open>False\<close>; a manifest file that cannot be read
  gives \<open>isValid = False\<close> with the message of the read error.
\<close>

theorem verification_never_throws:
  "(\<exists>r. verifySignature N data sa pub = Inr r)
   \<and> (\<exists>r. verifyManifest N manifestPath keyPath fs = Inr r)
   \<and> (CHR '':'' \<notin> set s \<longrightarrow>
        verifySignature N data (JStr s) pub =
          Inr \<lparr>isValid = False, error = Some invalid_format_message,
               vr_algorithm = None, vr_timestamp = None\<rparr>)
   \<and> (alg \<noteq> [] \<and> sig \<noteq> [] \<and> CHR '':'' \<notin> set alg \<and> CHR '':'' \<notin> set sig
        \<and> crypto_verify N (at_index (split_char CHR ''-'' alg) 1) data pub (from_base64 N sig)
            = Inl message \<longrightarrow>
        verifySignature N data (JStr (alg @ '':'' @ sig)) pub =
          Inr \<lparr>isValid = False, error = Some (''Verification failed: '' @ message),
               vr_algorithm = None, vr_timestamp = None\<rparr>)
   \<and> (\<forall>r. verifySignature N data sa pub = Inr r \<and> \<not> isValid r \<longrightarrow>
          error r = Some invalid_format_message
          \<or> (\<exists>message. error r = Some (''Verification failed: '' @ message))
          \<or> (error r = None \<and> (\<exists>h sig. crypto_verify N h data pub sig = Inr False)))
   \<and> (fs_readFile N manifestPath fs = Inl message \<longrightarrow>
        verifyManifest N manifestPath keyPath fs =
          Inr \<lparr>isValid = False, error = Some (''Verification failed: '' @ message),
               vr_algorithm = None, vr_timestamp = None\<rparr>)"
proof (intro conjI impI allI)
  show "\<exists>r. verifySignature N data sa pub = Inr r"
    by (rule verifySignature_total)
  show "\<exists>r. verifyManifest N manifestPath keyPath fs = Inr r"
    by (rule verifyManifest_total)
next
  assume "CHR '':'' \<notin> set s"
  then show "verifySignature N data (JStr s) pub =
      Inr \<lparr>isValid = False, error = Some invalid_format_message,
           vr_algorithm = None, vr_timestamp = None\<rparr>"
    by (rule verifySignature_no_separator)
next
  assume "alg \<noteq> [] \<and> sig \<noteq> [] \<and> CHR '':'' \<notin> set alg \<and> CHR '':'' \<notin> set sig
        \<and> crypto_verify N (at_index (split_char CHR ''-'' alg) 1) data pub (from_base64 N sig)
            = Inl message"
  then show "verifySignature N data (JStr (alg @ '':'' @ sig)) pub =
      Inr \<lparr>isValid = False, error = Some (''Verification failed: '' @ message),
           vr_algorithm = None, vr_timestamp = None\<rparr>"
    by (intro verifySignature_exception) simp_all
next
  fix r assume "verifySignature N data sa pub = Inr r \<and> \<not> isValid r"
  then show "error r = Some invalid_format_message
          \<or> (\<exists>message. error r = Some (''Verification failed: '' @ message))
          \<or> (error r = None \<and> (\<exists>h sig. crypto_verify N h data pub sig = Inr False))"
    using verifySignature_invalid_cases [of N data sa pub r] by simp
next
  assume "fs_readFile N manifestPath fs = Inl message"
  then show "verifyManifest N manifestPath keyPath fs =
      Inr \<lparr>isValid = False, error = Some (''Verification failed: '' @ message),
           vr_algorithm = None, vr_timestamp = None\<rparr>"
    by (rule verifyManifest_read_error)
qed

theorem verification_never_throws_witness:
  "verifySignature test_node ''{}'' (JStr ''no separator here'') (JStr ''pub-k1'') =
     Inr \<lparr>isValid = False, error = Some invalid_format_message,
          vr_algorithm = None, vr_timestamp = None\<rparr>
   \<and> verifySignature test_node ''{}'' (JStr (''RSA-MD5'' @ '':'' @ ''AAAA'')) (JStr ''pub-k1'') =
     Inr \<lparr>isValid = False, error = Some (''Verification failed: '' @ ''Invalid digest''),
          vr_algorithm = None, vr_timestamp = None\<rparr>"
proof -
  have a: "CHR '':'' \<notin> set ''no separator here''" by simp
  have b: "''RSA-MD5'' \<noteq> [] \<and> ''AAAA'' \<noteq> [] \<and> CHR '':'' \<notin> set ''RSA-MD5'' \<and> CHR '':'' \<notin> set ''AAAA''
        \<and> crypto_verify test_node (at_index (split_char CHR ''-'' ''RSA-MD5'') 1) ''{}'' (JStr ''pub-k1'')
             (from_base64 test_node ''AAAA'') = Inl ''Invalid digest''"
    by (simp add: test_node_def at_index_def)
  from verification_never_throws [of test_node "''{}''" "JStr ''x''" "JStr ''pub-k1''" "''m''" None "[]"
      "''no separator here''" "''RSA-MD5''" "''AAAA''" "''Invalid digest''"] a b
  show ?thesis by blast
qed


subsection \<open>The signature result and the signed manifest\<close>

lemma strip_signature_JObj:
  "strip_signature (JObj members) =
     JObj (filter (\<lambda>(k, v). k \<notin> {''signature'', ''publicKey'', ''signatureTimestamp''}) members)"
  by (auto simp: strip_signature_def intro!: filter_cong)

lemma embed_signature_fields:
  assumes "kvs = filter (\<lambda>(k, v). k \<notin> {''signature'', ''publicKey'', ''signatureTimestamp''}) members"
  shows "set_property ''signature'' a (JObj kvs) = Inr (JObj (kvs @ [(''signature'', a)]))"
    and "set_property ''publicKey'' b (JObj (kvs @ [(''signature'', a)]))
         = Inr (JObj (kvs @ [(''signature'', a), (''publicKey'', b)]))"
    and "set_property ''signatureTimestamp'' c (JObj (kvs @ [(''signature'', a), (''publicKey'', b)]))
         = Inr (JObj (kvs @ [(''signature'', a), (''publicKey'', b), (''signatureTimestamp'', c)]))"
  using assms by auto

lemma signData_Inr:
  assumes "signData N config data key = Inr r"
  shows "(\<exists>signatureBuffer.
            crypto_sign N (at_index (split_char CHR ''-'' (algorithm config)) 1) data key = Inr signatureBuffer
            \<and> sr_signature r = algorithm config @ '':'' @ base64 N signatureBuffer)
         \<and> crypto_public N key = Inr (sr_publicKey r)
         \<and> sr_timestamp r = Date_now N \<and> sr_algorithm r = algorithm config"
  using assms
  by (auto simp: signData_def try_catch_def Let_def split: sum.splits if_splits)

lemma signManifest_Inr:
  assumes "fs_readFile N manifestPath fs = Inr content"
    and "JSON_parse N content = Inr (JObj members)"
    and "signManifest N config manifestPath keyPath fs = Inr (r, fs')"
  shows "(\<exists>canonical key.
            canonicalManifest (Number_toString N) (JObj members) = Inr canonical
            \<and> fs_readFile N keyPath fs = Inr key
            \<and> signData N config canonical key = Inr r)
         \<and> fs_writeJSON N manifestPath
              (JObj (filter (\<lambda>(k, v). k \<notin> {''signature'', ''publicKey'', ''signatureTimestamp''}) members
                     @ [(''signature'', JStr (sr_signature r)),
                        (''publicKey'', JStr (sr_publicKey r)),
                        (''signatureTimestamp'', JNum (sr_timestamp r))])) fs = Inr fs'"
proof -
  let ?kvs = "filter (\<lambda>(k, v). k \<notin> {''signature'', ''publicKey'', ''signatureTimestamp''}) members"
  from assms(3) obtain canonical key m1 m2 m3 where
    c: "canonicalManifest (Number_toString N) (JObj members) = Inr canonical"
    and k: "fs_readFile N keyPath fs = Inr key"
    and s: "signData N config canonical key = Inr r"
    and m1: "set_property ''signature'' (JStr (sr_signature r)) (strip_signature (JObj members)) = Inr m1"
    and m2: "set_property ''publicKey'' (JStr (sr_publicKey r)) m1 = Inr m2"
    and m3: "set_property ''signatureTimestamp'' (JNum (sr_timestamp r)) m2 = Inr m3"
    and w: "fs_writeJSON N manifestPath m3 fs = Inr fs'"
    by (auto simp: signManifest_def try_catch_def assms(1,2) split: sum.splits
        simp del: set_property.simps)
  have "m1 = JObj (?kvs @ [(''signature'', JStr (sr_signature r))])"
    using m1 embed_signature_fields(1) [where kvs = "?kvs" and members = members, OF refl]
    by (simp only: strip_signature_JObj sum.inject)
  moreover from this have "m2 = JObj (?kvs @ [(''signature'', JStr (sr_signature r)),
      (''publicKey'', JStr (sr_publicKey r))])"
    using m2 embed_signature_fields(2) [where kvs = "?kvs" and members = members, OF refl] by (simp only: sum.inject)
  moreover from this have "m3 = JObj (?kvs @ [(''signature'', JStr (sr_signature r)),
      (''publicKey'', JStr (sr_publicKey r)), (''signatureTimestamp'', JNum (sr_timestamp r))])"
    using m3 embed_signature_fields(3) [where kvs = "?kvs" and members = members, OF refl] by (simp only: sum.inject)
  ultimately show ?thesis using c k s w by blast
qed

lemma test_canonical:
  \<open>canonicalManifest decimal (JObj [(''version'', JStr ''1.0.0''), (''bundleSize'', JNum 120)])
   = Inr ''{"bundleSize":120,"version":"1.0.0"}''\<close>
  by code_simp

lemma signData_Inr_iff:
  "signData N config data key = Inr r \<longleftrightarrow>
     (startsWith (algorithm config) ''RSA'' \<or> startsWith (algorithm config) ''ECDSA'')
     \<and> (\<exists>signatureBuffer pub.
           crypto_sign N (at_index (split_char CHR ''-'' (algorithm config)) 1) data key
             = Inr signatureBuffer
           \<and> crypto_public N key = Inr pub
           \<and> r = \<lparr>sr_signature = algorithm config @ '':'' @ base64 N signatureBuffer,
                  sr_algorithm = algorithm config, sr_publicKey = pub,
                  sr_timestamp = Date_now N\<rparr>)"
  by (auto simp: signData_def try_catch_def Let_def split: sum.splits if_splits)

lemma signManifest_Inr_iff:
  assumes "fs_readFile N manifestPath fs = Inr content"
    and "JSON_parse N content = Inr (JObj members)"
  shows "signManifest N config manifestPath keyPath fs = Inr (r, fs') \<longleftrightarrow>
         (\<exists>canonical key.
            canonicalManifest (Number_toString N) (JObj members) = Inr canonical
            \<and> fs_readFile N keyPath fs = Inr key
            \<and> signData N config canonical key = Inr r)
         \<and> fs_writeJSON N manifestPath
              (JObj (filter (\<lambda>(k, v). k \<notin> {''signature'', ''publicKey'', ''signatureTimestamp''}) members
                     @ [(''signature'', JStr (sr_signature r)),
                        (''publicKey'', JStr (sr_publicKey r)),
                        (''signatureTimestamp'', JNum (sr_timestamp r))])) fs = Inr fs'"
  (is "?L \<longleftrightarrow> ?R")
proof
  assume ?L
  from signManifest_Inr [OF assms this] show ?R .
next
  let ?kvs = "filter (\<lambda>(k, v). k \<notin> {''signature'', ''publicKey'', ''signatureTimestamp''}) members"
  assume ?R
  then obtain canonical key where
    c: "canonicalManifest (Number_toString N) (JObj members) = Inr canonical"
    and k: "fs_readFile N keyPath fs = Inr key"
    and s: "signData N config canonical key = Inr r"
    and w: "fs_writeJSON N manifestPath
              (JObj (?kvs @ [(''signature'', JStr (sr_signature r)),
                        (''publicKey'', JStr (sr_publicKey r)),
                        (''signatureTimestamp'', JNum (sr_timestamp r))])) fs = Inr fs'"
    by blast
  note e = embed_signature_fields [where kvs = "?kvs" and members = members, OF refl]
  have m1: "set_property ''signature'' (JStr (sr_signature r)) (strip_signature (JObj members))
            = Inr (JObj (?kvs @ [(''signature'', JStr (sr_signature r))]))"
    by (simp only: strip_signature_JObj e(1))
  show ?L
    by (simp only: signManifest_def try_catch_def assms c k s m1 e(2,3) w sum.case)
qed


text \<open>
  C8. \<^verbatim>\<open>signData\<close> succeeds exactly when the algorithm is an RSA or ECDSA one
  and the signing primitive and the derivation of the public key succeed, and
  then it returns as signature string the algorithm identifier, a colon and the
  base64 encoding of the bytes the signing primitive produced; as public key
  what is derived from the private key it was given; and as timestamp the clock
  reading. On a manifest object \<^verbatim>\<open>signManifest\<close> succeeds exactly when the
  canonicalization, the reading of the key file, \<^verbatim>\<open>signData\<close> on the canonical
  string and the writing of the file succeed, and what it writes is the manifest
  with its signature fields replaced by exactly the three values of the
  signature result it returns.
\<close>

theorem signData_result_format:
  "(signData N config data key = Inr r \<longleftrightarrow>
     (startsWith (algorithm config) ''RSA'' \<or> startsWith (algorithm config) ''ECDSA'')
     \<and> (\<exists>signatureBuffer pub.
           crypto_sign N (at_index (split_char CHR ''-'' (algorithm config)) 1) data key
             = Inr signatureBuffer
           \<and> crypto_public N key = Inr pub
           \<and> r = \<lparr>sr_signature = algorithm config @ '':'' @ base64 N signatureBuffer,
                  sr_algorithm = algorithm config, sr_publicKey = pub,
                  sr_timestamp = Date_now N\<rparr>))
   \<and> (fs_readFile N manifestPath fs = Inr content \<and> JSON_parse N content = Inr (JObj members) \<longrightarrow>
       (signManifest N config manifestPath keyPath fs = Inr (r', fs') \<longleftrightarrow>
         (\<exists>canonical key.
            canonicalManifest (Number_toString N) (JObj members) = Inr canonical
            \<and> fs_readFile N keyPath fs = Inr key
            \<and> signData N config canonical key = Inr r')
         \<and> fs_writeJSON N manifestPath
              (JObj (filter (\<lambda>(k, v). k \<notin> {''signature'', ''publicKey'', ''signatureTimestamp''}) members
                     @ [(''signature'', JStr (sr_signature r')),
                        (''publicKey'', JStr (sr_publicKey r')),
                        (''signatureTimestamp'', JNum (sr_timestamp r'))])) fs = Inr fs'))"
proof (intro conjI impI)
  show "signData N config data key = Inr r \<longleftrightarrow>
     (startsWith (algorithm config) ''RSA'' \<or> startsWith (algorithm config) ''ECDSA'')
     \<and> (\<exists>signatureBuffer pub.
           crypto_sign N (at_index (split_char CHR ''-'' (algorithm config)) 1) data key
             = Inr signatureBuffer
           \<and> crypto_public N key = Inr pub
           \<and> r = \<lparr>sr_signature = algorithm config @ '':'' @ base64 N signatureBuffer,
                  sr_algorithm = algorithm config, sr_publicKey = pub,
                  sr_timestamp = Date_now N\<rparr>)"
    by (rule signData_Inr_iff)
next
  assume "fs_readFile N manifestPath fs = Inr content \<and> JSON_parse N content = Inr (JObj members)"
  then have h: "fs_readFile N manifestPath fs = Inr content"
    "JSON_parse N content = Inr (JObj members)" by simp_all
  show "signManifest N config manifestPath keyPath fs = Inr (r', fs') \<longleftrightarrow>
         (\<exists>canonical key.
            canonicalManifest (Number_toString N) (JObj members) = Inr canonical
            \<and> fs_readFile N keyPath fs = Inr key
            \<and> signData N config canonical key = Inr r')
         \<and> fs_writeJSON N manifestPath
              (JObj (filter (\<lambda>(k, v). k \<notin> {''signature'', ''publicKey'', ''signatureTimestamp''}) members
                     @ [(''signature'', JStr (sr_signature r')),
                        (''publicKey'', JStr (sr_publicKey r')),
                        (''signatureTimestamp'', JNum (sr_timestamp r'))])) fs = Inr fs'"
    by (rule signManifest_Inr_iff [OF h])
qed

theorem signData_result_format_witness:
  \<open>signData test_node rsa_config ''{"bundleSize":120,"version":"1.0.0"}'' ''k1'' =
     Inr \<lparr>sr_signature = ''RSA-SHA256:sig-k1-36'', sr_algorithm = ''RSA-SHA256'',
          sr_publicKey = ''pub-k1'', sr_timestamp = 1700000000000\<rparr>
   \<and> fs_readFile test_node ''manifest.json'' [] = Inr ''M''
   \<and> JSON_parse test_node ''M'' = Inr (JObj [(''version'', JStr ''1.0.0''), (''bundleSize'', JNum 120)])
   \<and> signManifest test_node rsa_config ''manifest.json'' ''key.pem'' [] =
       Inr (\<lparr>sr_signature = ''RSA-SHA256:sig-k1-36'', sr_algorithm = ''RSA-SHA256'',
             sr_publicKey = ''pub-k1'', sr_timestamp = 1700000000000\<rparr>,
            [(''manifest.json'',
              JObj [(''version'', JStr ''1.0.0''), (''bundleSize'', JNum 120),
                    (''signature'', JStr ''RSA-SHA256:sig-k1-36''),
                    (''publicKey'', JStr ''pub-k1''),
                    (''signatureTimestamp'', JNum 1700000000000)])])\<close>
proof -
  let ?r = "\<lparr>sr_signature = ''RSA-SHA256:sig-k1-36'', sr_algorithm = ''RSA-SHA256'',
        sr_publicKey = ''pub-k1'', sr_timestamp = 1700000000000::nat\<rparr>"
  let ?doc = "JObj [(''version'', JStr ''1.0.0''), (''bundleSize'', JNum 120),
                    (''signature'', JStr ''RSA-SHA256:sig-k1-36''),
                    (''publicKey'', JStr ''pub-k1''),
                    (''signatureTimestamp'', JNum (1700000000000::nat))]"
  have p: "fs_readFile test_node ''manifest.json'' [] = Inr ''M''"
    "fs_readFile test_node ''key.pem'' [] = Inr ''k1''"
    "JSON_parse test_node ''M'' = Inr (JObj [(''version'', JStr ''1.0.0''), (''bundleSize'', JNum 120)])"
    "Number_toString test_node = decimal"
    "fs_writeJSON test_node ''manifest.json'' ?doc [] = Inr [(''manifest.json'', ?doc)]"
    "Date_now test_node = 1700000000000"
    "crypto_public test_node ''k1'' = Inr ''pub-k1''"
    "base64 test_node ''sig-k1-36'' = ''sig-k1-36''"
    by (simp_all add: test_node_def)
  have q: \<open>crypto_sign test_node (at_index (split_char CHR ''-'' (algorithm rsa_config)) 1)
             ''{"bundleSize":120,"version":"1.0.0"}'' ''k1'' = Inr ''sig-k1-36''\<close>
    "algorithm rsa_config = ''RSA-SHA256''"
    "startsWith (algorithm rsa_config) ''RSA''"
    by (simp_all add: test_node_def rsa_config_def at_index_def startsWith_def digit_char_def)
  note t = signData_result_format [of test_node rsa_config
      \<open>''{"bundleSize":120,"version":"1.0.0"}''\<close> "''k1''" ?r
      "''manifest.json''" "[]" "''M''"
      "[(''version'', JStr ''1.0.0''), (''bundleSize'', JNum 120)]" "''key.pem''"
      ?r "[(''manifest.json'', ?doc)]"]
  have s: \<open>signData test_node rsa_config ''{"bundleSize":120,"version":"1.0.0"}'' ''k1'' = Inr ?r\<close>
    using t p q by simp
  have m: "signManifest test_node rsa_config ''manifest.json'' ''key.pem'' [] =
       Inr (?r, [(''manifest.json'', ?doc)])"
    using t p s test_canonical by simp
  from s m p show ?thesis by simp
qed


subsection \<open>The build loop\<close>

lemma then_do_InrE:
  assumes "then_do m f w = (Inr r, w')"
  obtains x w1 where "m w = (Inr x, w1)" "f x w1 = (Inr r, w')"
  using assms by (auto simp: then_do_def split: prod.splits sum.splits)

lemma buildPlatform_result:
  assumes "buildPlatform S config p w = (Inr r, w')"
  shows "platform r = p \<and> (\<not> success r \<longrightarrow> br_error r \<noteq> None)"
proof -
  have body: "platform r = p \<and> (\<not> success r \<longrightarrow> br_error r \<noteq> None)"
    if "(case X w1 of
          (Inr result, w') \<Rightarrow> (Inr result, w')
        | (Inl message, w') \<Rightarrow>
            (Inr \<lparr>success = False, platform = p, bundlePath = b,
                  assetsPath = None, zipPath = [], br_size = 0,
                  br_error = Some message\<rparr>, w')) = (Inr r, w')"
      and "\<And>r w'. X w1 = (Inr r, w') \<Longrightarrow> platform r = p \<and> success r"
    for X w1 b
    using that by (auto split: prod.splits sum.splits)
  from assms show ?thesis
    unfolding buildPlatform_def Let_def
    apply (elim then_do_InrE)
    apply (erule body)
    apply (elim then_do_InrE)
    apply (auto simp: throw_io_def return_io_def split: if_splits elim!: then_do_InrE)
    done
qed

lemma build_one_result:
  "platform (fst (build_one S config p w)) = p
   \<and> (\<not> success (fst (build_one S config p w)) \<longrightarrow> br_error (fst (build_one S config p w)) \<noteq> None)"
  using buildPlatform_result [of S config p w]
  by (auto simp: build_one_def split: prod.splits sum.splits)

lemma build_loop_acc:
  "build_loop S config ps acc w =
     (acc @ fst (build_loop S config ps [] w), snd (build_loop S config ps [] w))"
proof (induction ps arbitrary: acc w)
  case Nil
  then show ?case by simp
next
  case (Cons p ps)
  obtain r w' where r: "build_one S config p w = (r, w')" by (cases "build_one S config p w")
  show ?case
    using Cons.IH [of "acc @ [r]" w'] Cons.IH [of "[r]" w'] by (simp add: r)
qed

lemma build_loop_snoc:
  "build_loop S config (ps @ [p]) [] w =
     (fst (build_loop S config ps [] w)
        @ [fst (build_one S config p (snd (build_loop S config ps [] w)))],
      snd (build_one S config p (snd (build_loop S config ps [] w))))"
proof (induction ps arbitrary: w)
  case Nil
  then show ?case by (simp split: prod.splits)
next
  case (Cons q ps)
  obtain r w' where r: "build_one S config q w = (r, w')" by (cases "build_one S config q w")
  show ?case
    using Cons.IH [of w'] build_loop_acc [of S config "ps @ [p]" "[r]" w']
      build_loop_acc [of S config ps "[r]" w']
    by (simp add: r)
qed

lemma build_loop_length: "length (fst (build_loop S config ps [] w)) = length ps"
  by (induction ps rule: rev_induct) (simp_all add: build_loop_snoc)

lemma build_loop_take:
  "i \<le> length ps \<Longrightarrow>
   take i (fst (build_loop S config ps [] w)) = fst (build_loop S config (take i ps) [] w)"
proof (induction ps arbitrary: i rule: rev_induct)
  case Nil
  then show ?case by simp
next
  case (snoc p ps)
  show ?case
  proof (cases "i \<le> length ps")
    case True
    then show ?thesis using snoc.IH [of i] by (simp add: build_loop_snoc build_loop_length)
  next
    case False
    with snoc.prems have "i = length (ps @ [p])" by simp
    then show ?thesis
      using build_loop_length [of S config "ps @ [p]" w] by simp
  qed
qed

lemma build_loop_nth:
  assumes "i < length ps"
  shows "fst (build_loop S config ps [] w) ! i =
         fst (build_one S config (ps ! i) (snd (build_loop S config (take i ps) [] w)))"
proof -
  have "take (Suc i) ps = take i ps @ [ps ! i]"
    using assms by (simp add: take_Suc_conv_app_nth)
  then have "fst (build_loop S config (take (Suc i) ps) [] w) ! i =
      fst (build_one S config (ps ! i) (snd (build_loop S config (take i ps) [] w)))"
    using assms by (simp add: build_loop_snoc nth_append build_loop_length)
  moreover have "fst (build_loop S config (take (Suc i) ps) [] w) ! i
      = fst (build_loop S config ps [] w) ! i"
    using build_loop_take [of "Suc i" ps S config w] assms
    by (metis Suc_leI lessI nth_take)
  ultimately show ?thesis by simp
qed

lemma build_loop_platforms: "map platform (fst (build_loop S config ps [] w)) = ps"
  by (induction ps rule: rev_induct) (simp_all add: build_loop_snoc build_one_result)

lemma build_loop_errors:
  "r \<in> set (fst (build_loop S config ps [] w)) \<Longrightarrow> \<not> success r \<Longrightarrow> br_error r \<noteq> None"
proof (induction ps rule: rev_induct)
  case Nil
  then show ?case by simp
next
  case (snoc p ps)
  then show ?case
    using build_one_result [of S config p "snd (build_loop S config ps [] w)"]
    by (auto simp: build_loop_snoc)
qed

text \<open>
  A failure in one platform's pipeline, in general: when the bundle directory
  cannot be created \<^verbatim>\<open>buildPlatform\<close> throws and the loop's \<^verbatim>\<open>catch\<close>
  records a failed result; when the bundler throws, the \<^verbatim>\<open>catch\<close> of
  \<^verbatim>\<open>buildPlatform\<close> does. When the output directory cannot be ensured,
  \<^verbatim>\<open>buildAllPlatforms\<close> throws and the command exits with status 1.
\<close>

lemma build_one_thrown:
  assumes "ensureDir S (path_join S (path_join S (outputPath config) p) ''bundles'') v
             = (Inl message, v1)"
  shows "build_one S config p v =
           (\<lparr>success = False, platform = p, bundlePath = [], assetsPath = None,
             zipPath = [], br_size = 0, br_error = Some message\<rparr>, v1)"
  using assms by (simp add: build_one_def buildPlatform_def then_do_def Let_def)

lemma build_one_bundler_failure:
  assumes "ensureDir S (path_join S (path_join S (outputPath config) p) ''bundles'') v
             = (Inr (), v1)"
    and "ensureDir S (path_join S (path_join S (outputPath config) p) ''assets'') v1
             = (Inr (), v2)"
    and "\<forall>c. bc_platform c = p \<longrightarrow> buildBundle S c v2 = (Inl message, v3)"
  shows "\<not> success (fst (build_one S config p v))
         \<and> platform (fst (build_one S config p v)) = p
         \<and> br_error (fst (build_one S config p v)) = Some message
         \<and> snd (build_one S config p v) = v3"
  using assms by (simp add: build_one_def buildPlatform_def then_do_def Let_def)

lemma buildAllPlatforms_throws:
  assumes "ensureDir S (outputPath config) w = (Inl message, w1)"
  shows "buildAllPlatforms S config w = (Inl message, w1)"
    and "build_exit_status S config w = 1"
  using assms by (simp_all add: build_exit_status_def buildAllPlatforms_def then_do_def)

text \<open>
  C4, as amended. Provided the output directory can be ensured,
  \<^verbatim>\<open>buildAllPlatforms\<close> returns one result per requested platform, in the
  order requested: the result of each platform is what its own pipeline gives
  in the world its predecessors left, whether they succeeded or not; a failed
  result carries the captured message; and the command exits with status 1
  exactly when some result has \<open>success = False\<close>. One turn of the loop gives a
  result with \<open>success = False\<close> and the message thrown, for that platform, both
  when \<^verbatim>\<open>buildPlatform\<close> throws (its bundle directory cannot be created) and
  when the bundler throws.
\<close>

theorem buildAllPlatforms_one_result_per_platform:
  assumes "ensureDir S (outputPath config) w = (Inr (), w1)"
  shows "(\<exists>results w'.
           buildAllPlatforms S config w = (Inr results, w')
           \<and> length results = length (platforms config)
           \<and> map platform results = platforms config
           \<and> (\<forall>i < length (platforms config).
                 results ! i =
                   fst (build_one S config (platforms config ! i)
                          (snd (build_loop S config (take i (platforms config)) [] w1))))
           \<and> (\<forall>r \<in> set results. \<not> success r \<longrightarrow> br_error r \<noteq> None)
           \<and> (build_exit_status S config w = 1 \<longleftrightarrow> (\<exists>r \<in> set results. \<not> success r)))
   \<and> (\<forall>p v v1 message.
         ensureDir S (path_join S (path_join S (outputPath config) p) ''bundles'') v
           = (Inl message, v1) \<longrightarrow>
         build_one S config p v =
           (\<lparr>success = False, platform = p, bundlePath = [], assetsPath = None,
             zipPath = [], br_size = 0, br_error = Some message\<rparr>, v1))
   \<and> (\<forall>p v v1 v2 v3 message.
         ensureDir S (path_join S (path_join S (outputPath config) p) ''bundles'') v
           = (Inr (), v1)
         \<and> ensureDir S (path_join S (path_join S (outputPath config) p) ''assets'') v1
           = (Inr (), v2)
         \<and> (\<forall>c. bc_platform c = p \<longrightarrow> buildBundle S c v2 = (Inl message, v3)) \<longrightarrow>
         \<not> success (fst (build_one S config p v))
         \<and> platform (fst (build_one S config p v)) = p
         \<and> br_error (fst (build_one S config p v)) = Some message
         \<and> snd (build_one S config p v) = v3)"
proof -
  let ?res = "fst (build_loop S config (platforms config) [] w1)"
  let ?w = "snd (build_loop S config (platforms config) [] w1)"
  have run: "buildAllPlatforms S config w = (Inr ?res, ?w)"
    using assms by (simp add: buildAllPlatforms_def then_do_def split: prod.splits)
  have ex: "build_exit_status S config w = 1 \<longleftrightarrow> (\<exists>r \<in> set ?res. \<not> success r)"
    by (auto simp: build_exit_status_def run filter_empty_conv)
  have loop: "\<exists>results w'.
           buildAllPlatforms S config w = (Inr results, w')
           \<and> length results = length (platforms config)
           \<and> map platform results = platforms config
           \<and> (\<forall>i < length (platforms config).
                 results ! i =
                   fst (build_one S config (platforms config ! i)
                          (snd (build_loop S config (take i (platforms config)) [] w1))))
           \<and> (\<forall>r \<in> set results. \<not> success r \<longrightarrow> br_error r \<noteq> None)
           \<and> (build_exit_status S config w = 1 \<longleftrightarrow> (\<exists>r \<in> set results. \<not> success r))"
    using run ex build_loop_length [of S config "platforms config" w1]
      build_loop_platforms [of S config "platforms config" w1]
      build_loop_nth [of _ "platforms config" S config w1]
      build_loop_errors [of _ S config "platforms config" w1]
    by (intro exI [of _ ?res] exI [of _ ?w]) simp
  show ?thesis
    using loop build_one_thrown [of S config] build_one_bundler_failure [of S config]
    by blast
qed

lemma test_build_ios:
  "build_one test_stages test_config ''ios'' [] =
     (\<lparr>success = False, platform = ''ios'', bundlePath = ''out/ios/bundles/index.ios.bundle'',
       assetsPath = None, zipPath = [], br_size = 0,
       br_error = Some ''Bundle build failed with code 1''\<rparr>, [])"
  by (simp add: build_one_def buildPlatform_def test_stages_def test_config_def then_do_def
      return_io_def throw_io_def Let_def)

lemma test_build_android:
  "build_one test_stages test_config ''android'' [] =
     (\<lparr>success = True, platform = ''android'',
       bundlePath = ''out/android/bundles/index.android.bundle'',
       assetsPath = Some ''out/android/assets'', zipPath = ''out/android.zip'', br_size = 2048,
       br_error = None\<rparr>,
      [''out/android/bundles/index.android.bundle'', ''out/android/manifest.json'',
       ''out/android.zip''])"
  by (simp add: build_one_def buildPlatform_def test_stages_def test_config_def then_do_def
      return_io_def throw_io_def Let_def)

theorem buildAllPlatforms_one_result_per_platform_witness:
  "ensureDir test_stages (outputPath test_config) [] = (Inr (), [])
   \<and> buildAllPlatforms test_stages test_config [] =
      (Inr [\<lparr>success = False, platform = ''ios'',
              bundlePath = ''out/ios/bundles/index.ios.bundle'',
              assetsPath = None, zipPath = [], br_size = 0,
              br_error = Some ''Bundle build failed with code 1''\<rparr>,
            \<lparr>success = True, platform = ''android'',
              bundlePath = ''out/android/bundles/index.android.bundle'',
              assetsPath = Some ''out/android/assets'', zipPath = ''out/android.zip'',
              br_size = 2048, br_error = None\<rparr>],
       [''out/android/bundles/index.android.bundle'', ''out/android/manifest.json'',
        ''out/android.zip''])
   \<and> build_exit_status test_stages test_config [] = 1
   \<and> br_error (fst (build_one test_stages test_config ''ios'' []))
       = Some ''Bundle build failed with code 1''
   \<and> build_one locked_stages test_config ''ios'' [] =
       (\<lparr>success = False, platform = ''ios'', bundlePath = [], assetsPath = None,
         zipPath = [], br_size = 0,
         br_error = Some ''EACCES: permission denied, mkdir out/ios/bundles''\<rparr>, [])"
proof -
  have h: "ensureDir test_stages (outputPath test_config) [] = (Inr (), [])"
    by (simp add: test_stages_def return_io_def)
  have p: "platforms test_config = [''ios'', ''android'']"
    by (simp add: test_config_def)
  from buildAllPlatforms_one_result_per_platform [OF h] obtain results w' where
    r: "buildAllPlatforms test_stages test_config [] = (Inr results, w')"
    and l: "length results = length (platforms test_config)"
    and n: "\<forall>i < length (platforms test_config).
              results ! i =
                fst (build_one test_stages test_config (platforms test_config ! i)
                  (snd (build_loop test_stages test_config (take i (platforms test_config)) [] [])))"
    and e: "build_exit_status test_stages test_config [] = 1 \<longleftrightarrow> (\<exists>r \<in> set results. \<not> success r)"
    by blast
  have run: "buildAllPlatforms test_stages test_config [] =
      (Inr [fst (build_one test_stages test_config ''ios'' []),
            fst (build_one test_stages test_config ''android'' [])],
       snd (build_one test_stages test_config ''android'' []))"
    by (simp add: buildAllPlatforms_def then_do_def h p test_build_ios split: prod.splits)
  with r have "results = [fst (build_one test_stages test_config ''ios'' []),
            fst (build_one test_stages test_config ''android'' [])]" by simp
  with e have "build_exit_status test_stages test_config [] = 1"
    by (simp add: test_build_ios)
  then have first: "ensureDir test_stages (outputPath test_config) [] = (Inr (), [])
   \<and> buildAllPlatforms test_stages test_config [] =
      (Inr [\<lparr>success = False, platform = ''ios'',
              bundlePath = ''out/ios/bundles/index.ios.bundle'',
              assetsPath = None, zipPath = [], br_size = 0,
              br_error = Some ''Bundle build failed with code 1''\<rparr>,
            \<lparr>success = True, platform = ''android'',
              bundlePath = ''out/android/bundles/index.android.bundle'',
              assetsPath = Some ''out/android/assets'', zipPath = ''out/android.zip'',
              br_size = 2048, br_error = None\<rparr>],
       [''out/android/bundles/index.android.bundle'', ''out/android/manifest.json'',
        ''out/android.zip''])
   \<and> build_exit_status test_stages test_config [] = 1"
    using h run by (simp add: test_build_ios test_build_android)
  have d: "ensureDir test_stages (path_join test_stages
              (path_join test_stages (outputPath test_config) ''ios'') ''bundles'') [] = (Inr (), [])"
    "ensureDir test_stages (path_join test_stages
              (path_join test_stages (outputPath test_config) ''ios'') ''assets'') [] = (Inr (), [])"
    "\<forall>c. bc_platform c = ''ios'' \<longrightarrow>
        buildBundle test_stages c [] = (Inl ''Bundle build failed with code 1'', [])"
    by (simp_all add: test_stages_def return_io_def throw_io_def)
  from buildAllPlatforms_one_result_per_platform [OF h] d
  have second: "br_error (fst (build_one test_stages test_config ''ios'' []))
       = Some ''Bundle build failed with code 1''"
    by blast
  have h': "ensureDir locked_stages (outputPath test_config) [] = (Inr (), [])"
    by (simp add: locked_stages_def test_config_def return_io_def)
  have d': "ensureDir locked_stages (path_join locked_stages
              (path_join locked_stages (outputPath test_config) ''ios'') ''bundles'') []
            = (Inl ''EACCES: permission denied, mkdir out/ios/bundles'', [])"
    by (simp add: locked_stages_def test_stages_def test_config_def throw_io_def)
  from buildAllPlatforms_one_result_per_platform [OF h'] d'
  have third: "build_one locked_stages test_config ''ios'' [] =
       (\<lparr>success = False, platform = ''ios'', bundlePath = [], assetsPath = None,
         zipPath = [], br_size = 0,
         br_error = Some ''EACCES: permission denied, mkdir out/ios/bundles''\<rparr>, [])"
    by blast
  from first second third show ?thesis by blast
qed





text \<open>
  C4 as stated does not hold for every run: \<^verbatim>\<open>ensureDir(outputPath)\<close> stands
  before the loop and outside any \<^verbatim>\<open>try\<close>, so when it throws,
  \<^verbatim>\<open>buildAllPlatforms\<close> throws too and returns no result at all.
\<close>

theorem buildAllPlatforms_counterexample:
  "platforms test_config \<noteq> []
   \<and> buildAllPlatforms readonly_stages test_config [] =
       (Inl ''EACCES: permission denied, mkdir out'', [])
   \<and> \<not> (\<exists>results w'. buildAllPlatforms readonly_stages test_config [] = (Inr results, w'))"
  by (simp add: buildAllPlatforms_def then_do_def readonly_stages_def throw_io_def test_config_def)


subsection \<open>Asset records and content hashes\<close>

lemma test_files_simps:
  "f_join test_files a b = a @ ''/'' @ b"
  "f_basename test_files ''assets/logo.png'' = ''logo.png''"
  "f_basename test_files ''./img/missing.png'' = ''missing.png''"
  "f_dirname test_files ''out/android/assets/assets/logo.png'' = ''out/android/assets/assets''"
  "f_extname test_files ''logo.png'' = ''.png''"
  "f_extname test_files ''assets/logo.png'' = ''.png''"
  "f_parse_name test_files ''missing.png'' = ''missing''"
  "f_pathExists test_files p = return_io (p = ''out/android/assets/drawable-mdpi'')"
  "f_readdir test_files ''out/android/assets/drawable-mdpi'' = return_io [''logo.png'']"
  "f_stat test_files p = return_io \<lparr>isFile = True, mtime = 1700000000000, st_size = 3\<rparr>"
  "f_readFile test_files p = return_io ''var icon=require('./img/missing.png');''"
  "f_ensureDir test_files p = return_io ()"
  "f_copy test_files p q = return_io ()"
  "f_glob test_files pattern ignore = return_io [''assets/logo.png'']"
  "f_readStream test_files p = return_io [''ab'', ''c'']"
  "f_sha256_hex test_files ''abc'' = ''ba7816bf8f01cfea414140de5dae2223b00361a396177a9cb410ff61f20015ad''"
  by (simp_all add: test_files_def)

lemma decimal_mtime: "decimal 1700000000000 = ''1700000000000''"
  by (simp add: digit_char_def)

lemma test_analyze:
  "analyzeMetroAssets test_files ''out/android/assets'' () =
     (Inr [\<lparr>a_name = ''logo.png'', a_type = ''png'',
            httpServerLocation = ''drawable-mdpi/logo.png'', scales = [1],
            a_hash = ''1700000000000'', sha256 = None\<rparr>], ())"
  by (simp add: analyzeMetroAssets_def test_files_simps then_do_def return_io_def Let_def
      getDensityScale_def decimal_mtime del: decimal.simps)

lemma test_copy:
  "copyAssets test_files ''app'' [''assets/**/*''] ''out/android/assets'' [''node_modules/**''] () =
     (Inr [\<lparr>a_name = ''logo.png'', a_type = ''png'',
            httpServerLocation = ''assets/assets/logo.png'', scales = [1],
            a_hash = ''1700000000000'',
            sha256 = Some ''ba7816bf8f01cfea414140de5dae2223b00361a396177a9cb410ff61f20015ad''\<rparr>], ())"
  by (simp add: copyAssets_def calculateSHA256_def test_files_simps then_do_def return_io_def
      Let_def decimal_mtime del: decimal.simps)

lemma calculateSHA256_digest:
  assumes "f_readStream F filePath w = (Inr chunks, w')"
  shows "calculateSHA256 F filePath w = (Inr (f_sha256_hex F (concat chunks)), w')"
proof -
  have "foldl (\<lambda>fed chunk. fed @ chunk) acc chunks = acc @ concat chunks" for acc :: string
    by (induction chunks arbitrary: acc) simp_all
  from this [of "[]"] assms show ?thesis
    by (simp add: calculateSHA256_def then_do_def return_io_def)
qed

lemma analyze_files_no_sha256:
  assumes "analyze_files F dir dirPath files acc w = (Inr assets, w')"
    and "\<forall>a \<in> set acc. sha256 a = None"
  shows "\<forall>a \<in> set assets. sha256 a = None"
  using assms
proof (induction files arbitrary: acc w)
  case Nil
  then show ?case by (simp add: return_io_def)
next
  case (Cons f rest)
  from Cons.prems(1) obtain stats w1 where
    st: "f_stat F (f_join F dirPath f) w = (Inr stats, w1)"
    and rest: "(if isFile stats then
         analyze_files F dir dirPath rest
           (acc @ [\<lparr>a_name = f, a_type = drop 1 (f_extname F f),
                           httpServerLocation = dir @ ''/'' @ f,
                           scales = getDensityScale dir,
                           a_hash = decimal (mtime stats),
                           sha256 = None\<rparr>])
       else analyze_files F dir dirPath rest acc) w1 = (Inr assets, w')"
    by (auto elim!: then_do_InrE)
  show ?case
  proof (cases "isFile stats")
    case True
    with rest Cons.prems(2) show ?thesis
      by (intro Cons.IH [where acc = "acc @ [_]"]) (auto simp del: decimal.simps)
  next
    case False
    with rest Cons.prems(2) show ?thesis by (intro Cons.IH [of acc w1]) auto
  qed
qed

lemma analyze_dirs_no_sha256:
  assumes "analyze_dirs F assetsDir dirs acc w = (Inr assets, w')"
    and "\<forall>a \<in> set acc. sha256 a = None"
  shows "\<forall>a \<in> set assets. sha256 a = None"
  using assms
proof (induction dirs arbitrary: acc w)
  case Nil
  then show ?case by (simp add: return_io_def)
next
  case (Cons dir rest)
  from Cons.prems(1) obtain ex w1 where
    e: "f_pathExists F (f_join F assetsDir dir) w = (Inr ex, w1)"
    and r: "(if ex then
             then_do (f_readdir F (f_join F assetsDir dir)) (\<lambda>files.
             then_do (analyze_files F dir (f_join F assetsDir dir) files acc) (\<lambda>assetFiles'.
               analyze_dirs F assetsDir rest assetFiles'))
           else analyze_dirs F assetsDir rest acc) w1 = (Inr assets, w')"
    by (auto simp: Let_def elim!: then_do_InrE)
  show ?case
  proof (cases ex)
    case True
    with r obtain files w2 acc' w3 where
      a: "analyze_files F dir (f_join F assetsDir dir) files acc w2 = (Inr acc', w3)"
      and b: "analyze_dirs F assetsDir rest acc' w3 = (Inr assets, w')"
      by (auto elim!: then_do_InrE)
    have "\<forall>a \<in> set acc'. sha256 a = None"
      by (rule analyze_files_no_sha256 [OF a Cons.prems(2)])
    then show ?thesis by (rule Cons.IH [OF b])
  next
    case False
    with r Cons.prems(2) show ?thesis using Cons.IH by auto
  qed
qed

lemma analyzeMetroAssets_no_sha256:
  "analyzeMetroAssets F assetsDir w = (Inr assets, w') \<Longrightarrow> \<forall>a \<in> set assets. sha256 a = None"
  unfolding analyzeMetroAssets_def by (erule analyze_dirs_no_sha256) simp


lemma copy_files_sha256:
  assumes "copy_files F projectRoot destDir fs acc w = (Inr assets, w')"
    and "\<forall>a \<in> set acc. sha256 a \<noteq> None"
  shows "\<forall>a \<in> set assets. sha256 a \<noteq> None"
  using assms
proof (induction fs arbitrary: acc w)
  case Nil
  then show ?case by (simp add: return_io_def)
next
  case (Cons f rest)
  have "\<exists>a w1. sha256 a \<noteq> None
            \<and> copy_files F projectRoot destDir rest (acc @ [a]) w1 = (Inr assets, w')"
    using Cons.prems(1)
    apply (simp only: copy_files.simps Let_def)
    apply (elim then_do_InrE)
    apply (rule exI, rule exI, rule conjI)
     prefer 2
     apply assumption
    apply simp
    done
  then obtain a w1 where a: "sha256 a \<noteq> None"
    and r: "copy_files F projectRoot destDir rest (acc @ [a]) w1 = (Inr assets, w')"
    by blast
  from a Cons.prems(2) have "\<forall>x \<in> set (acc @ [a]). sha256 x \<noteq> None" by auto
  then show ?case by (rule Cons.IH [OF r])
qed

lemma copy_patterns_sha256:
  assumes "copy_patterns F projectRoot destDir ex ps acc w = (Inr assets, w')"
    and "\<forall>a \<in> set acc. sha256 a \<noteq> None"
  shows "\<forall>a \<in> set assets. sha256 a \<noteq> None"
  using assms
proof (induction ps arbitrary: acc w)
  case Nil
  then show ?case by (simp add: return_io_def)
next
  case (Cons p rest)
  from Cons.prems(1) obtain fs w1 acc' w2 where
    a: "copy_files F projectRoot destDir fs acc w1 = (Inr acc', w2)"
    and b: "copy_patterns F projectRoot destDir ex rest acc' w2 = (Inr assets, w')"
    by (auto elim!: then_do_InrE)
  have "\<forall>a \<in> set acc'. sha256 a \<noteq> None"
    by (rule copy_files_sha256 [OF a Cons.prems(2)])
  then show ?case by (rule Cons.IH [OF b])
qed

lemma copyAssets_sets_sha256:
  "copyAssets F projectRoot sourcePatterns destDir excludePatterns w = (Inr assets, w')
   \<Longrightarrow> \<forall>a \<in> set assets. sha256 a \<noteq> None"
  unfolding copyAssets_def by (erule copy_patterns_sha256) simp


subsection \<open>Reference extraction\<close>

lemma longest_first_set: "(rest, c) \<in> set (longest_first n s cap) \<Longrightarrow> set rest \<subseteq> set s"
  by (induction n) (auto dest: in_set_dropD)

lemma matches_rest_subset:
  "(rest, c) \<in> set (matches r s cap) \<Longrightarrow> set rest \<subseteq> set s"
proof (induction r arbitrary: s cap rest c)
  case (Lit t)
  then show ?case by (auto split: if_splits dest: in_set_dropD)
next
  case (Seq r1 r2)
  from Seq.prems obtain mid c1 where
    "(mid, c1) \<in> set (matches r1 s cap)" "(rest, c) \<in> set (matches r2 mid c1)"
    by auto
  then have "set mid \<subseteq> set s" "set rest \<subseteq> set mid"
    using Seq.IH by blast+
  then show ?case by blast
next
  case (Alt r1 r2)
  then show ?case by (simp; blast)
next
  case (Group r)
  from Group.prems obtain c1 where "(rest, c1) \<in> set (matches r s cap)" by auto
  then show ?case using Group.IH by blast
qed (auto split: list.splits if_splits dest: longest_first_set)

lemma needs_bracket_Lit: "needs_bracket (Lit '']'')"
proof -
  have "take (Suc 0) s \<noteq> '']''" if "CHR '']'' \<notin> set s" for s
    using that by (cases s) auto
  then show ?thesis by (auto simp: needs_bracket_def)
qed

lemma needs_bracket_Seq:
  assumes "needs_bracket r2"
  shows "needs_bracket (Seq r1 r2)"
  unfolding needs_bracket_def
proof (intro allI impI)
  fix s cap assume s: "CHR '']'' \<notin> set s"
  have "matches r2 mid c1 = []" if "(mid, c1) \<in> set (matches r1 s cap)" for mid c1
  proof -
    from that have "set mid \<subseteq> set s" by (rule matches_rest_subset)
    with s have "CHR '']'' \<notin> set mid" by blast
    with assms show ?thesis by (simp add: needs_bracket_def)
  qed
  then show "matches (Seq r1 r2) s cap = []" by auto
qed

lemma needs_bracket_patterns: "needs_bracket require_pattern" "needs_bracket import_pattern"
  by (simp_all add: require_pattern_def import_pattern_def needs_bracket_Seq needs_bracket_Lit)

lemma exec_all_no_bracket:
  "needs_bracket r \<Longrightarrow> CHR '']'' \<notin> set s \<Longrightarrow> exec_all r k s = []"
  by (induction r k s rule: exec_all.induct) (auto simp: needs_bracket_def)

lemma references_need_bracket:
  "CHR '']'' \<notin> set bundleContent \<Longrightarrow> bundle_asset_references bundleContent = []"
  by (simp add: bundle_asset_references_def exec_all_no_bracket needs_bracket_patterns)

text \<open>
  C5. At a directory holding one Metro asset, \<^verbatim>\<open>analyzeMetroAssets\<close> returns
  a record with the timestamp token and no \<^verbatim>\<open>sha256\<close> at all, while
  \<^verbatim>\<open>copyAssets\<close>, on a supplementary asset, returns a record whose
  \<^verbatim>\<open>sha256\<close> is the hex digest of the streamed bytes.
\<close>

theorem analyzeMetroAssets_without_sha256:
  "analyzeMetroAssets test_files ''out/android/assets'' () =
     (Inr [\<lparr>a_name = ''logo.png'', a_type = ''png'',
            httpServerLocation = ''drawable-mdpi/logo.png'', scales = [1],
            a_hash = ''1700000000000'', sha256 = None\<rparr>], ())
   \<and> copyAssets test_files ''app'' [''assets/**/*''] ''out/android/assets'' [''node_modules/**''] () =
     (Inr [\<lparr>a_name = ''logo.png'', a_type = ''png'',
            httpServerLocation = ''assets/assets/logo.png'', scales = [1],
            a_hash = ''1700000000000'',
            sha256 = Some ''ba7816bf8f01cfea414140de5dae2223b00361a396177a9cb410ff61f20015ad''\<rparr>], ())"
  using test_analyze test_copy by simp

lemma require_pattern_with_bracket:
  \<open>exec_all require_pattern 0 ''x=require('./a/logo.png'];y=require("b.jpeg"]''
     = [Some ''./a/logo.png'', Some ''b.jpeg'']\<close>
  by code_simp

text \<open>
  C7. On a bundle whose text is \<^verbatim>\<open>var icon=require('./img/missing.png');\<close>
  and a catalog without any such asset, the checker extracts no reference and
  gives no warning: both patterns end in a literal closing bracket, which a
  \<^verbatim>\<open>require(...)\<close> call or an \<^verbatim>\<open>import\<close> statement does not have after the
  quote.
\<close>

theorem verifyAssetConsistency_misses_require:
  \<open>bundle_asset_references ''var icon=require('./img/missing.png');'' = []
   \<and> verifyAssetConsistency test_files ''out/android/bundles/index.android.bundle''
        ''out/android/assets'' () = (Inr \<lparr>valid = True, warnings = []\<rparr>, ())\<close>
proof -
  have r: \<open>bundle_asset_references ''var icon=require('./img/missing.png');'' = []\<close>
    by (rule references_need_bracket) simp
  show ?thesis
    by (simp add: r verifyAssetConsistency_def test_files_simps then_do_def return_io_def
        test_analyze)
qed

subsection \<open>Configuration validation\<close>

lemma validate_platforms_invalid:
  assumes "\<exists>p \<in> set ps. p \<notin> set validPlatforms"
  shows "\<exists>q \<in> set ps. q \<notin> set validPlatforms
           \<and> validate_platforms ps = Inl (''Invalid platform: '' @ q @ ''. Valid platforms: ios, android'')"
  using assms by (induction ps) auto

lemma validate_platforms_ok:
  "validate_platforms ps = Inr () \<longleftrightarrow> (\<forall>p \<in> set ps. p \<in> set validPlatforms)"
  by (induction ps) auto


text \<open>
  C6. Validation fails with a message naming the offending field and its value
  for a project path that does not exist, for an unknown platform, for a
  version that is not a semantic version and, with signing enabled, for an
  algorithm that is not one of the two supported (a version or an algorithm is
  checked when one is given: an absent or empty one is taken from
  \<^verbatim>\<open>package.json\<close> or defaulted). When signing is enabled with
  \<^verbatim>\<open>autoGenerate: false\<close> and the configured private key path does not exist,
  validation succeeds with one warning, which announces auto-generation;
  \<^verbatim>\<open>toBuildConfig\<close> hands the builder the resolved path of the missing key with
  the flag unchanged, and for that signature section the builder generates a
  key pair.
\<close>

theorem validateConfig_errors_and_missing_key_warning:
  "(\<not> c_pathExists E (c_resolve E (project_path config)) \<longrightarrow>
      validateConfig E config
        = Inl (''Project path does not exist: '' @ c_resolve E (project_path config)))
   \<and> (validate_project E config = Inr ()
        \<and> (\<exists>p \<in> set (build_platforms config). p \<notin> set validPlatforms) \<longrightarrow>
      (\<exists>q \<in> set (build_platforms config). q \<notin> set validPlatforms
         \<and> validateConfig E config
             = Inl (''Invalid platform: '' @ q @ ''. Valid platforms: ios, android'')))
   \<and> (validate_project E config = Inr ()
        \<and> validate_platforms (build_platforms config) = Inr ()
        \<and> build_version config = Some v \<and> v \<noteq> [] \<and> \<not> semver_valid E v \<longrightarrow>
      validateConfig E config
        = Inl (''Invalid version format: '' @ v @ ''. Use semantic versioning (e.g., 1.0.0)''))
   \<and> (validate_project E config = Inr ()
        \<and> validate_platforms (build_platforms config) = Inr ()
        \<and> validate_version E config = Inr ()
        \<and> cfg_signature config = Some sg \<and> sg_enabled sg
        \<and> sg_algorithm sg = Some a \<and> a \<noteq> [] \<and> a \<notin> set validAlgorithms \<longrightarrow>
      validateConfig E config
        = Inl (''Invalid signature algorithm: '' @ a
               @ ''. Valid algorithms: RSA-SHA256, ECDSA-SHA256''))
   \<and> (validate_project E config = Inr ()
        \<and> validate_platforms (build_platforms config) = Inr ()
        \<and> validate_version E config = Inr ()
        \<and> cfg_signature config = Some sg \<and> sg_enabled sg
        \<and> (sg_algorithm sg = None \<or> sg_algorithm sg = Some [] \<or> the (sg_algorithm sg) \<in> set validAlgorithms)
        \<and> sg_autoGenerate sg = Some False
        \<and> sg_privateKeyPath sg = Some k \<and> k \<noteq> [] \<and> \<not> c_pathExists E (c_resolve E k) \<longrightarrow>
      validateConfig E config
        = Inr [warning_sign @ ''  Private key not found: '' @ c_resolve E k
               @ ''. Will be auto-generated.'']
      \<and> (\<forall>b. toBuildConfig E config = Inr b \<longrightarrow>
             (\<exists>sp. snd b = Some sp \<and> enabled sp \<and> \<not> autoGenerate sp
                   \<and> sp_privateKeyPath sp = Some (c_resolve E k)
                   \<and> build_key_material E sp = GeneratedKeyPair))
      \<and> (truthy_string (build_version config) \<longrightarrow> (\<exists>b. toBuildConfig E config = Inr b)))"
proof (intro conjI impI)
  assume "\<not> c_pathExists E (c_resolve E (project_path config))"
  then show "validateConfig E config
        = Inl (''Project path does not exist: '' @ c_resolve E (project_path config))"
    by (simp add: validateConfig_def validate_project_def)
next
  assume a: "validate_project E config = Inr ()
        \<and> (\<exists>p \<in> set (build_platforms config). p \<notin> set validPlatforms)"
  then obtain q where "q \<in> set (build_platforms config)" "q \<notin> set validPlatforms"
    "validate_platforms (build_platforms config)
       = Inl (''Invalid platform: '' @ q @ ''. Valid platforms: ios, android'')"
    using validate_platforms_invalid [of "build_platforms config"] by blast
  with a show "\<exists>q \<in> set (build_platforms config). q \<notin> set validPlatforms
         \<and> validateConfig E config
             = Inl (''Invalid platform: '' @ q @ ''. Valid platforms: ios, android'')"
    by (auto simp: validateConfig_def)
next
  assume "validate_project E config = Inr ()
        \<and> validate_platforms (build_platforms config) = Inr ()
        \<and> build_version config = Some v \<and> v \<noteq> [] \<and> \<not> semver_valid E v"
  then show "validateConfig E config
        = Inl (''Invalid version format: '' @ v @ ''. Use semantic versioning (e.g., 1.0.0)'')"
    by (simp add: validateConfig_def validate_version_def)
next
  assume "validate_project E config = Inr ()
        \<and> validate_platforms (build_platforms config) = Inr ()
        \<and> validate_version E config = Inr ()
        \<and> cfg_signature config = Some sg \<and> sg_enabled sg
        \<and> sg_algorithm sg = Some a \<and> a \<noteq> [] \<and> a \<notin> set validAlgorithms"
  then show "validateConfig E config
        = Inl (''Invalid signature algorithm: '' @ a
               @ ''. Valid algorithms: RSA-SHA256, ECDSA-SHA256'')"
    by (simp add: validateConfig_def validate_signature_def truthy_string_def)
next
  assume h: "validate_project E config = Inr ()
        \<and> validate_platforms (build_platforms config) = Inr ()
        \<and> validate_version E config = Inr ()
        \<and> cfg_signature config = Some sg \<and> sg_enabled sg
        \<and> (sg_algorithm sg = None \<or> sg_algorithm sg = Some [] \<or> the (sg_algorithm sg) \<in> set validAlgorithms)
        \<and> sg_autoGenerate sg = Some False
        \<and> sg_privateKeyPath sg = Some k \<and> k \<noteq> [] \<and> \<not> c_pathExists E (c_resolve E k)"
  then show "validateConfig E config
        = Inr [warning_sign @ ''  Private key not found: '' @ c_resolve E k
               @ ''. Will be auto-generated.'']"
    by (auto simp: validateConfig_def validate_signature_def truthy_string_def)
  from h show "\<forall>b. toBuildConfig E config = Inr b \<longrightarrow>
             (\<exists>sp. snd b = Some sp \<and> enabled sp \<and> \<not> autoGenerate sp
                   \<and> sp_privateKeyPath sp = Some (c_resolve E k)
                   \<and> build_key_material E sp = GeneratedKeyPair)"
    by (auto simp: toBuildConfig_def truthy_string_def build_key_material_def
        split: sum.splits if_splits)
  show "\<exists>b. toBuildConfig E config = Inr b" if "truthy_string (build_version config)"
    using that by (simp add: toBuildConfig_def)
qed

lemma test_env_project_ok:
  "project_path c = ''app'' \<Longrightarrow> validate_project test_env c = Inr ()"
  by (simp add: validate_project_def test_env_def)

theorem validateConfig_errors_and_missing_key_warning_witness:
  "validateConfig test_env (missing_key_config\<lparr>project_path := ''gone''\<rparr>)
     = Inl ''Project path does not exist: /work/gone''
   \<and> validateConfig test_env (missing_key_config\<lparr>build_platforms := [''android'', ''windows'']\<rparr>)
     = Inl ''Invalid platform: windows. Valid platforms: ios, android''
   \<and> validateConfig test_env (missing_key_config\<lparr>build_version := Some ''1.0''\<rparr>)
     = Inl ''Invalid version format: 1.0. Use semantic versioning (e.g., 1.0.0)''
   \<and> validateConfig test_env (missing_key_config\<lparr>cfg_signature := Some
         \<lparr>sg_enabled = True, sg_algorithm = Some ''DSA-SHA1'', sg_privateKeyPath = None,
           sg_publicKeyPath = None, sg_autoGenerate = Some True\<rparr>\<rparr>)
     = Inl ''Invalid signature algorithm: DSA-SHA1. Valid algorithms: RSA-SHA256, ECDSA-SHA256''
   \<and> validateConfig test_env missing_key_config
     = Inr [warning_sign @ ''  Private key not found: /work/nonexistent/key.pem. Will be auto-generated.'']
   \<and> (\<exists>b sp. toBuildConfig test_env missing_key_config = Inr (b, Some sp)
          \<and> sp_privateKeyPath sp = Some ''/work/nonexistent/key.pem''
          \<and> build_key_material test_env sp = GeneratedKeyPair)"
proof -
  note t = validateConfig_errors_and_missing_key_warning
  have p: "validate_project test_env (missing_key_config\<lparr>build_platforms := ps\<rparr>) = Inr ()"
    "validate_project test_env (missing_key_config\<lparr>build_version := ver\<rparr>) = Inr ()"
    "validate_project test_env (missing_key_config\<lparr>cfg_signature := sec\<rparr>) = Inr ()"
    "validate_project test_env missing_key_config = Inr ()" for ps ver sec
    by (simp_all add: test_env_project_ok missing_key_config_def)
  have 1: "validateConfig test_env (missing_key_config\<lparr>project_path := ''gone''\<rparr>)
     = Inl ''Project path does not exist: /work/gone''"
    using t [of test_env "missing_key_config\<lparr>project_path := ''gone''\<rparr>"]
    by (simp add: test_env_def)
  have 2: "validateConfig test_env (missing_key_config\<lparr>build_platforms := [''android'', ''windows'']\<rparr>)
     = Inl ''Invalid platform: windows. Valid platforms: ios, android''"
    using t [of test_env "missing_key_config\<lparr>build_platforms := [''android'', ''windows'']\<rparr>"] p
    by (auto simp: validPlatforms_def)
  have 3: "validateConfig test_env (missing_key_config\<lparr>build_version := Some ''1.0''\<rparr>)
     = Inl ''Invalid version format: 1.0. Use semantic versioning (e.g., 1.0.0)''"
    using t [of test_env "missing_key_config\<lparr>build_version := Some ''1.0''\<rparr>" "''1.0''"] p
    by (simp add: missing_key_config_def validPlatforms_def test_env_def)
  have 4: "validateConfig test_env (missing_key_config\<lparr>cfg_signature := Some
         \<lparr>sg_enabled = True, sg_algorithm = Some ''DSA-SHA1'', sg_privateKeyPath = None,
           sg_publicKeyPath = None, sg_autoGenerate = Some True\<rparr>\<rparr>)
     = Inl ''Invalid signature algorithm: DSA-SHA1. Valid algorithms: RSA-SHA256, ECDSA-SHA256''"
    using t [of test_env "missing_key_config\<lparr>cfg_signature := Some
         \<lparr>sg_enabled = True, sg_algorithm = Some ''DSA-SHA1'', sg_privateKeyPath = None,
           sg_publicKeyPath = None, sg_autoGenerate = Some True\<rparr>\<rparr>" _
         "\<lparr>sg_enabled = True, sg_algorithm = Some ''DSA-SHA1'', sg_privateKeyPath = None,
           sg_publicKeyPath = None, sg_autoGenerate = Some True\<rparr>" "''DSA-SHA1''"] p
    by (simp add: missing_key_config_def validPlatforms_def validAlgorithms_def
        validate_version_def test_env_def)
  have 5: "validateConfig test_env missing_key_config
     = Inr [warning_sign @ ''  Private key not found: /work/nonexistent/key.pem. Will be auto-generated.'']"
    using t [of test_env missing_key_config _
         "\<lparr>sg_enabled = True, sg_algorithm = Some ''RSA-SHA256'',
           sg_privateKeyPath = Some ''nonexistent/key.pem'',
           sg_publicKeyPath = None, sg_autoGenerate = Some False\<rparr>" _ "''nonexistent/key.pem''"] p
    by (simp add: missing_key_config_def validPlatforms_def validAlgorithms_def
        validate_version_def test_env_def)
  have 6: "(\<forall>b. toBuildConfig test_env missing_key_config = Inr b \<longrightarrow>
             (\<exists>sp. snd b = Some sp \<and> enabled sp \<and> \<not> autoGenerate sp
                   \<and> sp_privateKeyPath sp = Some ''/work/nonexistent/key.pem''
                   \<and> build_key_material test_env sp = GeneratedKeyPair))
           \<and> (\<exists>b. toBuildConfig test_env missing_key_config = Inr b)"
    using t [of test_env missing_key_config _
         "\<lparr>sg_enabled = True, sg_algorithm = Some ''RSA-SHA256'',
           sg_privateKeyPath = Some ''nonexistent/key.pem'',
           sg_publicKeyPath = None, sg_autoGenerate = Some False\<rparr>" _ "''nonexistent/key.pem''"] p
    by (simp add: missing_key_config_def validPlatforms_def validAlgorithms_def
        validate_version_def test_env_def truthy_string_def)
  then obtain b sp where "toBuildConfig test_env missing_key_config = Inr b"
    "snd b = Some sp" "sp_privateKeyPath sp = Some ''/work/nonexistent/key.pem''"
    "build_key_material test_env sp = GeneratedKeyPair"
    by blast
  then have 7: "\<exists>b sp. toBuildConfig test_env missing_key_config = Inr (b, Some sp)
          \<and> sp_privateKeyPath sp = Some ''/work/nonexistent/key.pem''
          \<and> build_key_material test_env sp = GeneratedKeyPair"
    by (cases b) auto
  from 1 2 3 4 5 7 show ?thesis by blast
qed

text \<open>
  A version that is absent or empty is not checked: \<^verbatim>\<open>toBuildConfig\<close> then
  takes the version from \<^verbatim>\<open>package.json\<close>.
\<close>

lemma validate_version_absent:
  "build_version config = None \<or> build_version config = Some [] \<Longrightarrow>
   validate_version E config = Inr ()"
  by (auto simp: validate_version_def)


end
